theory Spec2Isabelle
  imports Main "HOL-Library.AList"
begin

section \<open>Python strings and paths\<close>

text \<open>
  A Python string is modelled as a \<open>string\<close>, a character being a code point up to
  U+00FF. In this range \<open>str.isdigit\<close> holds of \<open>0\<close> to \<open>9\<close> and of the
  superscript digits U+00B2, U+00B3 and U+00B9, and \<open>str.lower\<close> maps \<open>A\<close> to
  \<open>Z\<close> and the capital letters U+00C0 to U+00DE (but the sign U+00D7) to the letter
  32 places further.
\<close>

definition startswith :: "string \<Rightarrow> string \<Rightarrow> bool" where
  "startswith s p = (take (length p) s = p)"

definition endswith :: "string \<Rightarrow> string \<Rightarrow> bool" where
  "endswith s x = (length x \<le> length s \<and> drop (length s - length x) s = x)"

definition isdigit_char :: "char \<Rightarrow> bool" where
  "isdigit_char c = (c \<in> set (''0123456789'' @ [CHR 0xB2, CHR 0xB3, CHR 0xB9]))"

text \<open>\<open>str.isdigit\<close>: false on the empty string.\<close>

definition isdigit :: "string \<Rightarrow> bool" where
  "isdigit s = (s \<noteq> [] \<and> list_all isdigit_char s)"

definition upper_chars :: "char list" where
  "upper_chars =
     ''ABCDEFGHIJKLMNOPQRSTUVWXYZ'' @
     [CHR 0xC0, CHR 0xC1, CHR 0xC2, CHR 0xC3, CHR 0xC4, CHR 0xC5, CHR 0xC6,
      CHR 0xC7, CHR 0xC8, CHR 0xC9, CHR 0xCA, CHR 0xCB, CHR 0xCC, CHR 0xCD,
      CHR 0xCE, CHR 0xCF, CHR 0xD0, CHR 0xD1, CHR 0xD2, CHR 0xD3, CHR 0xD4,
      CHR 0xD5, CHR 0xD6, CHR 0xD8, CHR 0xD9, CHR 0xDA, CHR 0xDB, CHR 0xDC,
      CHR 0xDD, CHR 0xDE]"

definition lower_chars :: "char list" where
  "lower_chars =
     ''abcdefghijklmnopqrstuvwxyz'' @
     [CHR 0xE0, CHR 0xE1, CHR 0xE2, CHR 0xE3, CHR 0xE4, CHR 0xE5, CHR 0xE6,
      CHR 0xE7, CHR 0xE8, CHR 0xE9, CHR 0xEA, CHR 0xEB, CHR 0xEC, CHR 0xED,
      CHR 0xEE, CHR 0xEF, CHR 0xF0, CHR 0xF1, CHR 0xF2, CHR 0xF3, CHR 0xF4,
      CHR 0xF5, CHR 0xF6, CHR 0xF8, CHR 0xF9, CHR 0xFA, CHR 0xFB, CHR 0xFC,
      CHR 0xFD, CHR 0xFE]"

definition lower_char :: "char \<Rightarrow> char" where
  "lower_char c = (case map_of (zip upper_chars lower_chars) c of Some l \<Rightarrow> l | None \<Rightarrow> c)"

definition lower :: "string \<Rightarrow> string" where
  "lower s = map lower_char s"

text \<open>\<open>s.lstrip(".")\<close>\<close>

definition lstrip_dot :: "string \<Rightarrow> string" where
  "lstrip_dot s = dropWhile (\<lambda>c. c = CHR ''.'') s"

text \<open>\<open>sep.join(xs)\<close>\<close>

fun str_join :: "string \<Rightarrow> string list \<Rightarrow> string" where
  "str_join sep [] = []"
| "str_join sep [x] = x"
| "str_join sep (x # y # ys) = x @ sep @ str_join sep (y # ys)"

text \<open>\<open>x or d\<close> on an optional string: \<open>None\<close> and the empty string are falsy.\<close>

definition or_else :: "string option \<Rightarrow> string \<Rightarrow> string" where
  "or_else x d = (case x of None \<Rightarrow> d | Some s \<Rightarrow> if s = [] then d else s)"

text \<open>\<open>s.rfind(c)\<close>: the index of the last occurrence, \<open>-1\<close> when there is none.\<close>

fun rfind :: "char \<Rightarrow> string \<Rightarrow> int" where
  "rfind c [] = - 1"
| "rfind c (x # xs) =
     (let r = rfind c xs in if 0 \<le> r then r + 1 else if x = c then 0 else - 1)"

text \<open>
  \<open>os.path.splitext\<close>: split at the last dot of the last path component, unless that
  component has only dots before it.
\<close>

definition splitext :: "string \<Rightarrow> string \<times> string" where
  "splitext p =
     (let sepIndex = rfind CHR ''/'' p;
          dotIndex = rfind CHR ''.'' p
      in if sepIndex < dotIndex \<and>
            list_ex (\<lambda>c. c \<noteq> CHR ''.'')
              (take (nat (dotIndex - (sepIndex + 1))) (drop (nat (sepIndex + 1)) p))
         then (take (nat dotIndex) p, drop (nat dotIndex) p)
         else (p, []))"

text \<open>\<open>os.path.join(a, b)\<close>\<close>

definition join :: "string \<Rightarrow> string \<Rightarrow> string" where
  "join a b =
     (if startswith b ''/'' then b
      else if a = [] \<or> endswith a ''/'' then a @ b
      else a @ ''/'' @ b)"

text \<open>\<open>os.path.dirname(p)\<close>\<close>

definition dirname :: "string \<Rightarrow> string" where
  "dirname p =
     (let head = take (nat (rfind CHR ''/'' p + 1)) p
      in if head \<noteq> [] \<and> \<not> list_all (\<lambda>c. c = CHR ''/'') head
         then rev (dropWhile (\<lambda>c. c = CHR ''/'') (rev head))
         else head)"

section \<open>Item metadata and the tags passed to the muxer\<close>

record meta =
  m_title :: "string option"
  m_channel :: "string option"
  m_upload_date :: "string option"
  m_description :: "string option"
  m_tags :: "string list option"
  m_url :: "string option"
  m_thumbnail_url :: "string option"

text \<open>
  \<open>embed_metadata\<close>, lines 285--299: the values read from the metadata, with their
  defaults.
\<close>

definition title_of :: "meta \<Rightarrow> string \<Rightarrow> string" where
  "title_of m video_id = or_else (m_title m) video_id"

definition channel_of :: "meta \<Rightarrow> string" where
  "channel_of m = or_else (m_channel m) []"

definition upload_date_of :: "meta \<Rightarrow> string" where
  "upload_date_of m = or_else (m_upload_date m) []"

definition description_of :: "meta \<Rightarrow> string" where
  "description_of m = or_else (m_description m) []"

definition tags_of :: "meta \<Rightarrow> string list" where
  "tags_of m = (case m_tags m of None \<Rightarrow> [] | Some ts \<Rightarrow> ts)"

definition url_of :: "meta \<Rightarrow> string \<Rightarrow> string" where
  "url_of m video_id = or_else (m_url m) (''https://www.youtube.com/watch?v='' @ video_id)"

text \<open>Convert YYYYMMDD to YYYY-MM-DD if possible (lines 293--296).\<close>

definition date_tag :: "string \<Rightarrow> string" where
  "date_tag upload_date =
     (if length upload_date = 8 \<and> isdigit upload_date
      then take 4 upload_date @ ''-'' @ take 2 (drop 4 upload_date) @ ''-'' @
           take 2 (drop 6 upload_date)
      else [])"

definition keywords_of :: "meta \<Rightarrow> string" where
  "keywords_of m = (if tags_of m \<noteq> [] then str_join '', '' (tags_of m) else [])"

definition comment_of :: "meta \<Rightarrow> string \<Rightarrow> string" where
  "comment_of m video_id = ''YouTubeID='' @ video_id @ '' URL='' @ url_of m video_id"

text \<open>One \<open>-metadata key=value\<close> pair, passed only when the value is not empty.\<close>

definition metadata_arg :: "string \<Rightarrow> string \<Rightarrow> string list" where
  "metadata_arg key v = (if v \<noteq> [] then [''-metadata'', key @ ''='' @ v] else [])"

text \<open>The core metadata arguments of the muxer command (lines 338--350).\<close>

definition core_metadata :: "meta \<Rightarrow> string \<Rightarrow> string list" where
  "core_metadata m video_id =
     metadata_arg ''title'' (title_of m video_id) @
     metadata_arg ''artist'' (channel_of m) @
     metadata_arg ''date'' (date_tag (upload_date_of m)) @
     metadata_arg ''description'' (description_of m) @
     metadata_arg ''keywords'' (keywords_of m) @
     metadata_arg ''comment'' (comment_of m video_id)"

section \<open>The file system\<close>

text \<open>
  Paths are compared as the strings the program builds. A node is a regular file with its
  bytes, a directory, or an entry whose size cannot be read (a dangling link:
  \<open>os.path.getsize\<close> raises on it and \<open>os.path.exists\<close> is false). The list order
  of the file system is the order in which \<open>os.listdir\<close> returns names.
\<close>

datatype exn =
  OSError | FileNotFoundError | FileExistsError | IsADirectoryError | ValueError
  | CalledProcessError | RequestException | DownloadError | HttpError | RefreshError
  | KeyError

type_synonym bytes = string

datatype node = File bytes | Dir | Unreadable

type_synonym fs = "(string \<times> node) list"

definition lookup :: "fs \<Rightarrow> string \<Rightarrow> node option" where
  "lookup f p = map_of f p"

definition path_exists :: "fs \<Rightarrow> string \<Rightarrow> bool" where
  "path_exists f p =
     (case lookup f p of Some (File c) \<Rightarrow> True | Some Dir \<Rightarrow> True | Some Unreadable \<Rightarrow> False
      | None \<Rightarrow> False)"

definition isdir :: "fs \<Rightarrow> string \<Rightarrow> bool" where
  "isdir f p = (lookup f p = Some Dir)"

text \<open>The prefix of the paths directly inside directory \<open>d\<close>, as \<open>join d\<close> builds them.\<close>

definition dir_prefix :: "string \<Rightarrow> string" where
  "dir_prefix d = (if d = [] \<or> endswith d ''/'' then d else d @ ''/'')"

definition child_name :: "string \<Rightarrow> string \<Rightarrow> string option" where
  "child_name d p =
     (let n = drop (length (dir_prefix d)) p
      in if startswith p (dir_prefix d) \<and> n \<noteq> [] \<and> CHR ''/'' \<notin> set n then Some n else None)"

definition listdir :: "fs \<Rightarrow> string \<Rightarrow> string list" where
  "listdir f d = List.map_filter (\<lambda>(p, n). child_name d p) f"

text \<open>\<open>os.path.getsize\<close>; a directory reports one block.\<close>

definition getsize :: "fs \<Rightarrow> string \<Rightarrow> exn + nat" where
  "getsize f p =
     (case lookup f p of
        Some (File c) \<Rightarrow> Inr (length c)
      | Some Dir \<Rightarrow> Inr 4096
      | Some Unreadable \<Rightarrow> Inl OSError
      | None \<Rightarrow> Inl FileNotFoundError)"

section \<open>Partial file check\<close>

text \<open>The loop of \<open>is_partial_file_stuck\<close> over the listed names (lines 264--273).\<close>

fun stuck_scan :: "fs \<Rightarrow> string \<Rightarrow> string \<Rightarrow> string list \<Rightarrow> bool" where
  "stuck_scan f temp_dir vid [] = False"
| "stuck_scan f temp_dir vid (n # ns) =
     (if startswith n vid \<and> endswith n ''.part''
      then (case getsize f (join temp_dir n) of
              Inr sz \<Rightarrow> if sz < 1024 * 512 then True else stuck_scan f temp_dir vid ns
            | Inl e \<Rightarrow> True)
      else stuck_scan f temp_dir vid ns)"

definition is_partial_file_stuck :: "fs \<Rightarrow> string \<Rightarrow> string \<Rightarrow> bool" where
  "is_partial_file_stuck f temp_dir vid =
     (if \<not> isdir f temp_dir then False else stuck_scan f temp_dir vid (listdir f temp_dir))"

text \<open>Directories used in the examples below.\<close>

definition small_partial_fs :: fs where
  "small_partial_fs =
     [(''temp_downloads/abc'', Dir),
      (''temp_downloads/abc/abc.f248.webm.part'', File ''0123456789'')]"

definition large_partial_fs :: fs where
  "large_partial_fs =
     [(''temp_downloads/abc'', Dir),
      (''temp_downloads/abc/abc.f248.webm.part'', File (replicate 524288 CHR ''x''))]"

definition unreadable_partial_fs :: fs where
  "unreadable_partial_fs =
     [(''temp_downloads/abc'', Dir),
      (''temp_downloads/abc/abc.f248.webm.part'', Unreadable)]"

section \<open>Effects: the world, its trace and the environment\<close>

text \<open>
  A function of the program becomes a function on the world: the file system and the
  trace of what the program logged and which external operations it invoked, in order.
  The log messages are the \<open>logging\<close> calls of the source, by their text.
\<close>

datatype level = INFO | WARNING | ERROR

datatype log_msg =
  Thumbnail_download_failed string
  | Metadata_embedded string
  | Ffmpeg_embedding_failed string
  | Unexpected_embedding_error string
  | Download_attempt string nat
  | Trying_extractor string string
  | Stuck_partial string
  | Merge_opts_failed
  | Extractor_failed string string
  | No_info string string
  | Success_via string string string
  | Skipping_mp4_webm string
  | Conversion_failed string
  | No_usable_output string string
  | All_extractors_failed string
  | Permanent_failure string
  | Lockfile_present
  | No_token string
  | Refresh_failed_account string
  | Client_init_failed string
  | No_valid_client string string
  | Playlist_fetch_failed string
  | Refresh_failed_playlist string string
  | Metadata_fetch_failed string
  | Refresh_failed_video string string
  | No_metadata string
  | Start_download string "string option"
  | Download_failed string
  | Copy_started
  | Copy_exception
  | Copy_ok string
  | Db_insert_failed string
  | Copy_failed string
  | Failed_removing string
  | Separator
  | Run_complete
  | Telegram_failed

text \<open>The values of the extractor's option dictionary.\<close>

datatype optval = S string | N int | B bool | L "optval list" | D "(string \<times> optval) list"

datatype event =
  Log level log_msg
  | Http_get string
  | Ffmpeg "string list"
  | Ydl "(string \<times> optval) list" string
  | Playlist_list string string
  | Videos_list string string
  | Playlist_delete string string
  | Copy2 string string
  | Send_summary "string list" "string option list"

record world =
  fs :: fs
  trace :: "event list"

definition emit :: "event \<Rightarrow> world \<Rightarrow> world" where
  "emit ev w = w\<lparr>trace := trace w @ [ev]\<rparr>"

definition logging :: "level \<Rightarrow> log_msg \<Rightarrow> world \<Rightarrow> world" where
  "logging l m w = emit (Log l m) w"

text \<open>A call returns a value or raises; its effects on the world stay in both cases.\<close>

datatype 'a res = Return 'a | Raise exn

text \<open>
  The operations on the file system. Ancestors of a path are not tracked: writing a file
  does not ask for its parent directory.
\<close>

definition write_file :: "string \<Rightarrow> bytes \<Rightarrow> fs \<Rightarrow> exn + fs" where
  "write_file p c f =
     (if isdir f p then Inl IsADirectoryError else Inr (AList.update p (File c) f))"

definition unlink :: "string \<Rightarrow> fs \<Rightarrow> exn + fs" where
  "unlink p f =
     (case lookup f p of
        None \<Rightarrow> Inl FileNotFoundError
      | Some Dir \<Rightarrow> Inl IsADirectoryError
      | Some (File c) \<Rightarrow> Inr (AList.delete p f)
      | Some Unreadable \<Rightarrow> Inr (AList.delete p f))"

text \<open>\<open>os.replace\<close>; the program renames regular files only.\<close>

definition replace :: "string \<Rightarrow> string \<Rightarrow> fs \<Rightarrow> exn + fs" where
  "replace src dst f =
     (case lookup f src of
        None \<Rightarrow> Inl FileNotFoundError
      | Some Dir \<Rightarrow> Inl OSError
      | Some (File c) \<Rightarrow>
          if isdir f dst then Inl IsADirectoryError
          else Inr (AList.update dst (File c) (AList.delete src f))
      | Some Unreadable \<Rightarrow>
          if isdir f dst then Inl IsADirectoryError
          else Inr (AList.update dst Unreadable (AList.delete src f)))"

text \<open>
  \<open>shutil.rmtree(d, ignore_errors=True)\<close>: nothing happens on a path that is not a
  directory; otherwise the directory and everything below it is gone.
\<close>

definition rmtree :: "string \<Rightarrow> fs \<Rightarrow> fs" where
  "rmtree d f =
     (case lookup f d of
        Some (File c) \<Rightarrow> f
      | Some Unreadable \<Rightarrow> f
      | _ \<Rightarrow> filter (\<lambda>(p, n). p \<noteq> d \<and> \<not> startswith p (dir_prefix d)) f)"

text \<open>\<open>os.makedirs(d, exist_ok=True)\<close>\<close>

definition makedirs :: "string \<Rightarrow> fs \<Rightarrow> exn + fs" where
  "makedirs d f =
     (if d = [] then Inl FileNotFoundError
      else case lookup f d of
             None \<Rightarrow> Inr (AList.update d Dir f)
           | Some Dir \<Rightarrow> Inr f
           | Some (File c) \<Rightarrow> Inl FileExistsError
           | Some Unreadable \<Rightarrow> Inl FileExistsError)"

text \<open>
  What the environment answers: the thumbnail request, the random names
  \<open>tempfile.mkstemp\<close> draws, the muxer process and the extractor. The muxer writes its
  last argument, the output path, and nothing else. The extractor is asked per attempt
  (pass, client, retry) and leaves files in the scratch directory.
\<close>

datatype http_result = Http_raises | Response bool bytes

datatype proc_outcome = Completed bytes | Failed "bytes option" | Not_started

datatype ydl_outcome = Ydl_raises | Info bool

record env =
  http_get :: "string \<Rightarrow> http_result"
  tmp_names :: "string list"
  ffmpeg :: "string list \<Rightarrow> proc_outcome"
  extract_info :: "string \<Rightarrow> nat \<Rightarrow> string \<Rightarrow> nat \<Rightarrow> ydl_outcome \<times> (string \<times> node) list"

text \<open>
  \<open>tempfile.mkstemp(suffix, dir)\<close>: the first candidate name that does not exist is
  created empty; \<open>FileExistsError\<close> when every candidate is taken.
\<close>

definition mkstemp :: "env \<Rightarrow> string \<Rightarrow> string \<Rightarrow> fs \<Rightarrow> exn + (string \<times> fs)" where
  "mkstemp e suffix dir f =
     (case filter (\<lambda>p. lookup f p = None)
             (map (\<lambda>n. join dir (''tmp'' @ n @ suffix)) (tmp_names e)) of
        [] \<Rightarrow> Inl FileExistsError
      | p # ps \<Rightarrow> Inr (p, AList.update p (File []) f))"

text \<open>\<open>subprocess.run(cmd, check=True)\<close> of the muxer.\<close>

definition run_ffmpeg :: "env \<Rightarrow> string list \<Rightarrow> world \<Rightarrow> unit res \<times> world" where
  "run_ffmpeg e cmd w =
     (let w1 = emit (Ffmpeg cmd) w in
      case ffmpeg e cmd of
        Completed out \<Rightarrow> (Return (), w1\<lparr>fs := AList.update (last cmd) (File out) (fs w1)\<rparr>)
      | Failed None \<Rightarrow> (Raise CalledProcessError, w1)
      | Failed (Some part) \<Rightarrow>
          (Raise CalledProcessError, w1\<lparr>fs := AList.update (last cmd) (File part) (fs w1)\<rparr>)
      | Not_started \<Rightarrow> (Raise FileNotFoundError, w1))"

section \<open>Metadata embedding\<close>

text \<open>Download thumbnail, best effort (lines 301--315).\<close>

definition thumb_file :: "string \<Rightarrow> string" where
  "thumb_file video_id = join ''/tmp/yt-dlp/thumbs'' (video_id @ ''.jpg'')"

definition download_thumbnail ::
  "env \<Rightarrow> string option \<Rightarrow> string \<Rightarrow> world \<Rightarrow> string option \<times> world" where
  "download_thumbnail e thumb_url video_id w =
     (case thumb_url of
        None \<Rightarrow> (None, w)
      | Some url \<Rightarrow>
          if url = [] then (None, w)
          else (case makedirs ''/tmp/yt-dlp/thumbs'' (fs w) of
                  Inl x \<Rightarrow> (None, logging ERROR (Thumbnail_download_failed video_id) w)
                | Inr f1 \<Rightarrow>
                    (let w1 = emit (Http_get url) (w\<lparr>fs := f1\<rparr>) in
                     case http_get e url of
                       Http_raises \<Rightarrow>
                         (None, logging ERROR (Thumbnail_download_failed video_id) w1)
                     | Response ok content \<Rightarrow>
                         if ok \<and> content \<noteq> []
                         then (case write_file (thumb_file video_id) content (fs w1) of
                                 Inl x \<Rightarrow>
                                   (None, logging ERROR (Thumbnail_download_failed video_id) w1)
                               | Inr f2 \<Rightarrow> (Some (thumb_file video_id), w1\<lparr>fs := f2\<rparr>))
                         else (None, w1))))"

text \<open>The muxer command (lines 323--357).\<close>

definition embed_cmd ::
  "fs \<Rightarrow> string \<Rightarrow> string option \<Rightarrow> meta \<Rightarrow> string \<Rightarrow> string \<Rightarrow> string list" where
  "embed_cmd f local_file thumb_path m video_id tmp_path =
     [''ffmpeg'', ''-y'', ''-i'', local_file] @
     (case thumb_path of
        None \<Rightarrow> []
      | Some tp \<Rightarrow>
          if path_exists f tp
          then [''-attach'', tp, ''-metadata:s:t'', ''mimetype=image/jpeg'',
                ''-metadata:s:t'', ''filename=cover.jpg'']
          else []) @
     core_metadata m video_id @
     [''-c'', ''copy'', tmp_path]"

text \<open>\<open>try: os.unlink(p) except Exception: pass\<close>\<close>

definition discard :: "string \<Rightarrow> world \<Rightarrow> world" where
  "discard p w = (case unlink p (fs w) of Inl x \<Rightarrow> w | Inr f' \<Rightarrow> w\<lparr>fs := f'\<rparr>)"

text \<open>The \<open>try\<close> block with its two handlers (lines 322--373).\<close>

definition tag_file ::
  "env \<Rightarrow> string \<Rightarrow> string option \<Rightarrow> meta \<Rightarrow> string \<Rightarrow> string \<Rightarrow> world \<Rightarrow> world" where
  "tag_file e local_file thumb_path m video_id tmp_path w =
     (case run_ffmpeg e (embed_cmd (fs w) local_file thumb_path m video_id tmp_path) w of
        (Return u, w1) \<Rightarrow>
          (case replace tmp_path local_file (fs w1) of
             Inr f' \<Rightarrow> logging INFO (Metadata_embedded video_id) (w1\<lparr>fs := f'\<rparr>)
           | Inl x \<Rightarrow> discard tmp_path (logging ERROR (Unexpected_embedding_error video_id) w1))
      | (Raise x, w1) \<Rightarrow>
          if x = CalledProcessError
          then discard tmp_path (logging ERROR (Ffmpeg_embedding_failed video_id) w1)
          else discard tmp_path (logging ERROR (Unexpected_embedding_error video_id) w1))"

text \<open>The \<open>finally\<close> block (lines 374--379).\<close>

definition cleanup_thumbnail :: "string option \<Rightarrow> world \<Rightarrow> world" where
  "cleanup_thumbnail thumb_path w = (case thumb_path of None \<Rightarrow> w | Some tp \<Rightarrow> discard tp w)"

text \<open>
  \<open>embed_metadata(local_file, meta, video_id)\<close>. The temporary file is made before the
  \<open>try\<close> block, so a failure of \<open>mkstemp\<close> is raised to the caller.
\<close>

definition embed_metadata ::
  "env \<Rightarrow> string \<Rightarrow> meta option \<Rightarrow> string \<Rightarrow> world \<Rightarrow> unit res \<times> world" where
  "embed_metadata e local_file meta video_id w =
     (case meta of
        None \<Rightarrow> (Return (), w)
      | Some m \<Rightarrow>
          (case download_thumbnail e (m_thumbnail_url m) video_id w of
             (thumb_path, w1) \<Rightarrow>
               (let base_ext = (if snd (splitext local_file) \<noteq> [] then snd (splitext local_file)
                                else ''.webm'')
                in case mkstemp e (''.tagged'' @ base_ext) (dirname local_file) (fs w1) of
                     Inl x \<Rightarrow> (Raise x, w1)
                   | Inr (tmp_path, f2) \<Rightarrow>
                       (Return (),
                        cleanup_thumbnail thumb_path
                          (tag_file e local_file thumb_path m video_id tmp_path
                             (w1\<lparr>fs := f2\<rparr>))))))"

section \<open>Final format conversion\<close>

datatype overrides = Opts "(string \<times> optval) list" | Not_a_mapping

record playlist =
  pl_playlist_id :: string
  pl_folder :: string
  pl_account :: string
  pl_remove_after_download :: bool

record config =
  c_final_format :: "string option"
  c_yt_dlp_opts :: "overrides option"
  c_filename_template :: "string option"
  c_js_runtime :: "string option"
  c_accounts :: "(string \<times> string option) list"
  c_playlists :: "playlist list"
  c_telegram :: "(string option \<times> string option) option"

text \<open>\<open>config.get("final_format") if config else None\<close>\<close>

definition desired_ext_of :: "config option \<Rightarrow> string option" where
  "desired_ext_of config = (case config of None \<Rightarrow> None | Some c \<Rightarrow> c_final_format c)"

definition current_ext_of :: "string \<Rightarrow> string" where
  "current_ext_of chosen = lower (lstrip_dot (snd (splitext chosen)))"

definition remux_cmd :: "string \<Rightarrow> string \<Rightarrow> string list" where
  "remux_cmd chosen converted = [''ffmpeg'', ''-y'', ''-i'', chosen, ''-c'', ''copy'', converted]"

text \<open>
  Post-processing final format conversion (lines 485--505): the path to return and the
  world after it.
\<close>

definition final_format_conversion ::
  "env \<Rightarrow> config option \<Rightarrow> string \<Rightarrow> string \<Rightarrow> world \<Rightarrow> string \<times> world" where
  "final_format_conversion e config chosen vid w =
     (case desired_ext_of config of
        None \<Rightarrow> (chosen, w)
      | Some desired_ext \<Rightarrow>
          if desired_ext = [] then (chosen, w)
          else if current_ext_of chosen = ''mp4'' \<and> desired_ext = ''webm''
          then (chosen, logging WARNING (Skipping_mp4_webm vid) w)
          else if current_ext_of chosen \<noteq> desired_ext
          then (let converted = fst (splitext chosen) @ ''.'' @ desired_ext in
                case run_ffmpeg e (remux_cmd chosen converted) w of
                  (Raise x, w1) \<Rightarrow> (chosen, logging ERROR (Conversion_failed vid) w1)
                | (Return u, w1) \<Rightarrow>
                    (case unlink chosen (fs w1) of
                       Inl x \<Rightarrow> (chosen, logging ERROR (Conversion_failed vid) w1)
                     | Inr f' \<Rightarrow> (converted, w1\<lparr>fs := f'\<rparr>)))
          else (chosen, w))"

section \<open>yt-dlp (WEBM + MP4 fallback)\<close>

definition MAX_VIDEO_RETRIES :: nat where
  "MAX_VIDEO_RETRIES = 4"

definition EXTRACTOR_RETRIES :: nat where
  "EXTRACTOR_RETRIES = 2"

definition FORMAT_WEBM :: string where
  "FORMAT_WEBM =
     ''bestvideo[ext=webm][height<=1080]+bestaudio[ext=webm]/'' @
     ''bestvideo[ext=webm][height<=720]+bestaudio[ext=webm]/'' @
     ''bestvideo[ext=mp4][height<=1080]+bestaudio[ext=m4a]/'' @
     ''bestvideo[ext=mp4][height<=720]+bestaudio[ext=m4a]''"

definition extractor_chain :: "(string \<times> (string \<times> string) list) list" where
  "extractor_chain =
     [(''android'',
       [(''User-Agent'', ''com.google.android.youtube/19.42.37 (Linux; Android 14)''),
        (''Accept-Language'', ''en-US,en;q=0.9'')]),
      (''tv_embedded'',
       [(''User-Agent'', ''Mozilla/5.0 (SmartTV; Linux; Tizen 6.5) AppleWebKit/537.36''),
        (''Accept-Language'', ''en-US,en;q=0.9'')]),
      (''web'',
       [(''User-Agent'',
         ''Mozilla/5.0 (Macintosh; Intel Mac OS X 10_15_7)'' @
         '' AppleWebKit/605.1.15 (KHTML, like Gecko) Safari/605.1.15''),
        (''Accept-Language'', ''en-US,en;q=0.9'')])]"

text \<open>\<open>video_url.split("v=")[-1]\<close>: what follows the last \<open>v=\<close>, or the whole URL.\<close>

fun after_last_v :: "string \<Rightarrow> string option" where
  "after_last_v [] = None"
| "after_last_v (c # cs) =
     (case after_last_v cs of
        Some r \<Rightarrow> Some r
      | None \<Rightarrow> if c = CHR ''v'' \<and> take 1 cs = ''='' then Some (drop 1 cs) else None)"

definition vid_of_url :: "string \<Rightarrow> string" where
  "vid_of_url video_url = (case after_last_v video_url of Some r \<Rightarrow> r | None \<Rightarrow> video_url)"

text \<open>The option dictionary of one attempt (lines 431--443).\<close>

definition base_opts ::
  "string \<Rightarrow> string \<Rightarrow> (string \<times> string) list \<Rightarrow> (string \<times> optval) list" where
  "base_opts temp_dir client_name headers =
     [(''outtmpl'', S (join temp_dir ''%(id)s.%(ext)s'')),
      (''paths'', D [(''temp'', S ''/tmp/yt-dlp'')]),
      (''format'', S FORMAT_WEBM),
      (''quiet'', B True),
      (''continuedl'', B True),
      (''socket_timeout'', N 120),
      (''retries'', N 5),
      (''forceipv4'', B True),
      (''http_headers'', D (map (\<lambda>(k, v). (k, S v)) headers)),
      (''extractor_args'', D [(''youtube'', L [S (''player_client='' @ client_name)])]),
      (''remote_components'', L [S ''ejs:github''])]"

text \<open>\<open>opts.update(d)\<close>\<close>

definition dict_update ::
  "(string \<times> optval) list \<Rightarrow> (string \<times> optval) list \<Rightarrow> (string \<times> optval) list" where
  "dict_update d opts = fold (\<lambda>(k, v). AList.update k v) d opts"

text \<open>
  Allow caller to inject/override yt-dlp options via config (lines 445--450): the
  overrides in force, and whether merging them raised (and was logged).
\<close>

definition overrides_of :: "config option \<Rightarrow> overrides option" where
  "overrides_of config =
     (case config of
        None \<Rightarrow> None
      | Some c \<Rightarrow>
          (case c_yt_dlp_opts c of
             None \<Rightarrow> None
           | Some (Opts d) \<Rightarrow> if d = [] then None else Some (Opts d)
           | Some Not_a_mapping \<Rightarrow> Some Not_a_mapping))"

definition merged_opts ::
  "config option \<Rightarrow> (string \<times> optval) list \<Rightarrow> (string \<times> optval) list" where
  "merged_opts config opts =
     (case overrides_of config of Some (Opts d) \<Rightarrow> dict_update d opts | _ \<Rightarrow> opts)"

text \<open>
  \<open>js_runtime.split(":", 1)\<close> unpacked into two names (lines 452--454): a runtime
  without a colon raises \<open>ValueError\<close>.
\<close>

definition with_js_runtime ::
  "string option \<Rightarrow> (string \<times> optval) list \<Rightarrow> exn + (string \<times> optval) list" where
  "with_js_runtime js_runtime opts =
     (case js_runtime of
        None \<Rightarrow> Inr opts
      | Some js \<Rightarrow>
          if js = [] then Inr opts
          else if CHR '':'' \<in> set js
          then Inr (AList.update ''js_runtimes''
                 (D [(takeWhile (\<lambda>c. c \<noteq> CHR '':'') js,
                      D [(''path'', S (tl (dropWhile (\<lambda>c. c \<noteq> CHR '':'') js)))])]) opts)
          else Inl ValueError)"

text \<open>
  The files the extractor leaves in the scratch directory, which is empty when the
  extractor starts: the entries that are file names.
\<close>

definition valid_name :: "string \<Rightarrow> bool" where
  "valid_name n = (n \<noteq> [] \<and> CHR ''/'' \<notin> set n)"

definition scratch_entries :: "string \<Rightarrow> (string \<times> node) list \<Rightarrow> fs" where
  "scratch_entries temp_dir files =
     map (\<lambda>(n, nd). (dir_prefix temp_dir @ n, nd)) (filter (\<lambda>(n, nd). valid_name n) files)"

text \<open>Prefer .webm if present, else accept mp4 (lines 467--477).\<close>

definition pick_output :: "string \<Rightarrow> string \<Rightarrow> string list \<Rightarrow> string option" where
  "pick_output temp_dir vid names =
     (case find (\<lambda>n. startswith n vid \<and> endswith n ''.webm'') names of
        Some n \<Rightarrow> Some (join temp_dir n)
      | None \<Rightarrow>
          (case find (\<lambda>n. startswith n vid \<and> endswith n ''.mp4'') names of
             Some n \<Rightarrow> Some (join temp_dir n)
           | None \<Rightarrow> None))"

definition choose_output :: "fs \<Rightarrow> string \<Rightarrow> string \<Rightarrow> string option" where
  "choose_output f temp_dir vid = pick_output temp_dir vid (listdir f temp_dir)"

text \<open>What follows a chosen file (lines 479--505): embed, convert, return.\<close>

definition finish ::
  "env \<Rightarrow> string \<Rightarrow> meta option \<Rightarrow> string \<Rightarrow> config option \<Rightarrow> world
     \<Rightarrow> string option res \<times> world" where
  "finish e chosen meta vid config w =
     (case embed_metadata e chosen meta vid w of
        (Raise x, w1) \<Rightarrow> (Raise x, w1)
      | (Return u, w1) \<Rightarrow>
          (case final_format_conversion e config chosen vid w1 of
             (p, w2) \<Rightarrow> (Return (Some p), w2)))"

text \<open>Reset temp dir if stuck, then wipe and recreate it (lines 422--429).\<close>

definition reset_if_stuck :: "string \<Rightarrow> string \<Rightarrow> world \<Rightarrow> world" where
  "reset_if_stuck temp_dir vid w =
     (if path_exists (fs w) temp_dir \<and> is_partial_file_stuck (fs w) temp_dir vid
      then (logging WARNING (Stuck_partial vid) w)\<lparr>fs := rmtree temp_dir (fs w)\<rparr>
      else w)"

definition log_merge_failure :: "config option \<Rightarrow> world \<Rightarrow> world" where
  "log_merge_failure config w =
     (if overrides_of config = Some Not_a_mapping then logging ERROR Merge_opts_failed w else w)"

text \<open>
  One attempt, the body of the innermost loop (lines 422--507): \<open>Return None\<close> when the
  loop goes on, \<open>Return (Some path)\<close> when the function returns the path.
\<close>

definition attempt ::
  "env \<Rightarrow> string \<Rightarrow> string \<Rightarrow> string option \<Rightarrow> meta option \<Rightarrow> config option \<Rightarrow> string
     \<Rightarrow> nat \<Rightarrow> string \<Rightarrow> (string \<times> string) list \<Rightarrow> nat \<Rightarrow> world \<Rightarrow> string option res \<times> world" where
  "attempt e video_url temp_dir js_runtime meta config vid pass client_name headers retry w =
     (let w1 = reset_if_stuck temp_dir vid w in
      case makedirs temp_dir (rmtree temp_dir (fs w1)) of
        Inl x \<Rightarrow> (Raise x, w1\<lparr>fs := rmtree temp_dir (fs w1)\<rparr>)
      | Inr f3 \<Rightarrow>
          (let w3 = log_merge_failure config (w1\<lparr>fs := f3\<rparr>) in
           case with_js_runtime js_runtime
                  (merged_opts config (base_opts temp_dir client_name headers)) of
             Inl x \<Rightarrow> (Raise x, w3)
           | Inr opts \<Rightarrow>
               (case extract_info e video_url pass client_name retry of
                  (outcome, files) \<Rightarrow>
                    (let w5 = emit (Ydl opts video_url)
                                (w3\<lparr>fs := fs w3 @ scratch_entries temp_dir files\<rparr>)
                     in case outcome of
                          Ydl_raises \<Rightarrow>
                            (Return None, logging WARNING (Extractor_failed vid client_name) w5)
                        | Info False \<Rightarrow>
                            (Return None, logging WARNING (No_info vid client_name) w5)
                        | Info True \<Rightarrow>
                            (case choose_output (fs w5) temp_dir vid of
                               None \<Rightarrow>
                                 (Return None,
                                  logging WARNING (No_usable_output vid client_name) w5)
                             | Some chosen \<Rightarrow>
                                 finish e chosen meta vid config
                                   (logging INFO (Success_via vid client_name chosen) w5))))))"

text \<open>
  A \<open>for\<close> loop whose body may return from the function: the loop goes on while the body
  answers \<open>Return None\<close>, and ends with the first other answer.
\<close>

fun for_each ::
  "('a \<Rightarrow> 's \<Rightarrow> 'b option res \<times> 's) \<Rightarrow> 'a list \<Rightarrow> 's \<Rightarrow> 'b option res \<times> 's" where
  "for_each body [] s = (Return None, s)"
| "for_each body (x # xs) s =
     (case body x s of
        (Return None, s') \<Rightarrow> for_each body xs s'
      | (Return (Some y), s') \<Rightarrow> (Return (Some y), s')
      | (Raise ex, s') \<Rightarrow> (Raise ex, s'))"

text \<open>The three nested loops of \<open>download_with_ytdlp\<close> (lines 415--512).\<close>

definition client_body ::
  "env \<Rightarrow> string \<Rightarrow> string \<Rightarrow> string option \<Rightarrow> meta option \<Rightarrow> config option \<Rightarrow> string
     \<Rightarrow> nat \<Rightarrow> string \<times> (string \<times> string) list \<Rightarrow> world \<Rightarrow> string option res \<times> world" where
  "client_body e video_url temp_dir js_runtime meta config vid pass client w =
     for_each
       (attempt e video_url temp_dir js_runtime meta config vid pass (fst client) (snd client))
       [0..<EXTRACTOR_RETRIES]
       (logging INFO (Trying_extractor vid (fst client)) w)"

definition pass_body ::
  "env \<Rightarrow> string \<Rightarrow> string \<Rightarrow> string option \<Rightarrow> meta option \<Rightarrow> config option \<Rightarrow> string
     \<Rightarrow> nat \<Rightarrow> world \<Rightarrow> string option res \<times> world" where
  "pass_body e video_url temp_dir js_runtime meta config vid pass w =
     (case for_each (client_body e video_url temp_dir js_runtime meta config vid pass)
             extractor_chain
             (logging INFO (Download_attempt vid (pass + 1)) w) of
        (Return None, w') \<Rightarrow> (Return None, logging WARNING (All_extractors_failed vid) w')
      | (Return (Some p), w') \<Rightarrow> (Return (Some p), w')
      | (Raise ex, w') \<Rightarrow> (Raise ex, w'))"

definition download_with_ytdlp ::
  "env \<Rightarrow> string \<Rightarrow> string \<Rightarrow> string option \<Rightarrow> meta option \<Rightarrow> config option \<Rightarrow> world
     \<Rightarrow> string option res \<times> world" where
  "download_with_ytdlp e video_url temp_dir js_runtime meta config w =
     (case for_each
             (pass_body e video_url temp_dir js_runtime meta config (vid_of_url video_url))
             [0..<MAX_VIDEO_RETRIES] w of
        (Return None, w') \<Rightarrow>
          (Return None, logging ERROR (Permanent_failure (vid_of_url video_url)) w')
      | (Return (Some p), w') \<Rightarrow> (Return (Some p), w')
      | (Raise ex, w') \<Rightarrow> (Raise ex, w'))"

section \<open>Example environments and worlds\<close>

definition quiet_env :: env where
  "quiet_env =
     \<lparr>http_get = (\<lambda>url. Response True ''jpeg''),
      tmp_names = [''k3x9q2ab''],
      ffmpeg = (\<lambda>cmd. Completed ''remuxed''),
      extract_info = (\<lambda>url pass client retry. (Ydl_raises, []))\<rparr>"

definition failing_muxer_env :: env where
  "failing_muxer_env = quiet_env\<lparr>ffmpeg := (\<lambda>cmd. Failed (Some ''part''))\<rparr>"

definition cfg_final :: "string \<Rightarrow> config" where
  "cfg_final ext =
     \<lparr>c_final_format = Some ext, c_yt_dlp_opts = None, c_filename_template = None,
      c_js_runtime = None, c_accounts = [], c_playlists = [], c_telegram = None\<rparr>"

definition webm_world :: world where
  "webm_world =
     \<lparr>fs = [(''temp_downloads/abc'', Dir), (''temp_downloads/abc/abc.webm'', File ''media'')],
      trace = []\<rparr>"

definition mp4_world :: world where
  "mp4_world =
     \<lparr>fs = [(''temp_downloads/abc'', Dir), (''temp_downloads/abc/abc.mp4'', File ''media'')],
      trace = []\<rparr>"

definition sample_meta :: meta where
  "sample_meta =
     \<lparr>m_title = Some ''A title'', m_channel = Some ''A channel'',
      m_upload_date = Some ''20230115'', m_description = None, m_tags = Some [''x'', ''y''],
      m_url = Some ''https://www.youtube.com/watch?v=abc'',
      m_thumbnail_url = Some ''https://i.ytimg.com/vi/abc/default.jpg''\<rparr>"

section \<open>The plan of attempts\<close>





text \<open>The extractor calls of a trace, and the call an attempt makes.\<close>

definition is_ydl :: "event \<Rightarrow> bool" where
  "is_ydl ev = (case ev of Ydl opts url \<Rightarrow> True | _ \<Rightarrow> False)"

definition ydl_calls :: "event list \<Rightarrow> event list" where
  "ydl_calls tr = filter is_ydl tr"







definition empty_world :: world where
  "empty_world = \<lparr>fs = [], trace = []\<rparr>"

section \<open>Filename helpers\<close>

definition is_space :: "char \<Rightarrow> bool" where
  "is_space c =
     (c \<in> set [CHR '' '', CHR 0x09, CHR 0x0A, CHR 0x0B, CHR 0x0C, CHR 0x0D,
                CHR 0x1C, CHR 0x1D, CHR 0x1E, CHR 0x1F, CHR 0x85, CHR 0xA0])"

text \<open>\<open>re.sub(r"\s+", " ", name)\<close>\<close>

fun collapse_spaces :: "string \<Rightarrow> string" where
  "collapse_spaces [] = []"
| "collapse_spaces (c # cs) =
     (if is_space c
      then (if take 1 (collapse_spaces cs) = '' '' then collapse_spaces cs
            else CHR '' '' # collapse_spaces cs)
      else c # collapse_spaces cs)"

definition rstrip :: "string \<Rightarrow> string" where
  "rstrip s = rev (dropWhile is_space (rev s))"

definition strip :: "string \<Rightarrow> string" where
  "strip s = rstrip (dropWhile is_space s)"

text \<open>
  \<open>sanitize_for_filesystem(name, maxlen=180)\<close>; the characters removed are
  \<open>\ / : * ? " < > |\<close>, and NFC normalisation leaves text of code points up to
  U+00FF as it is.
\<close>

definition unsafe_chars :: "char list" where
  "unsafe_chars = [CHR 0x5C, CHR ''/'', CHR '':'', CHR ''*'', CHR ''?'', CHR 0x22,
                   CHR ''<'', CHR ''>'', CHR ''|'']"

definition sanitize_for_filesystem :: "string option \<Rightarrow> string" where
  "sanitize_for_filesystem name =
     (case name of
        None \<Rightarrow> []
      | Some n \<Rightarrow>
          if n = [] then []
          else (let n2 = strip (collapse_spaces (filter (\<lambda>c. c \<notin> set unsafe_chars) n))
                in if 180 < length n2 then rstrip (take 180 n2) else n2))"

text \<open>Cleaner filename for media servers: \<open>Title - Channel (MM-YYYY)\<close>.\<close>

definition pretty_filename :: "string option \<Rightarrow> string option \<Rightarrow> string option \<Rightarrow> string" where
  "pretty_filename title channel upload_date =
     (let title_s = sanitize_for_filesystem title;
          channel_s = sanitize_for_filesystem channel;
          d = (case upload_date of None \<Rightarrow> [] | Some u \<Rightarrow> u)
      in if d \<noteq> [] \<and> length d = 8 \<and> isdigit d
         then title_s @ '' - '' @ channel_s @ '' ('' @ take 2 (drop 4 d) @ ''-'' @ take 4 d @ '')''
         else title_s @ '' - '' @ channel_s)"

section \<open>The run: ledger, playlists and background copies\<close>

record entry =
  e_videoId :: "string option"
  e_playlistItemId :: "string option"

record snippet =
  sn_title :: "string option"
  sn_channelTitle :: "string option"
  sn_publishedAt :: string
  sn_description :: "string option"
  sn_tags :: "string list option"
  sn_thumbnails :: "(string \<times> string option) list"

text \<open>What a call of the playlist-source client gives: a result or one of the errors.\<close>

datatype 'a api_result = Ok 'a | Http_error | Refresh_error | Other_error exn

text \<open>A row of the table \<open>downloads\<close>; the key \<open>video_id\<close> is kept beside it.\<close>

record row =
  r_playlist_id :: string
  r_downloaded_at :: nat
  r_filepath :: string

text \<open>
  A copy thread that was started: source and destination, the values its callback
  \<open>after_copy\<close> holds as default arguments, and how many later extractions the copy
  outlasts.
\<close>

record pending_copy =
  pc_src :: string
  pc_dst :: string
  pc_video_id :: string
  pc_playlist :: string
  pc_entry_id :: "string option"
  pc_temp :: string
  pc_remove :: bool
  pc_yt_service :: string
  pc_wait :: nat

datatype load_result = Loaded | Load_refresh_error | Load_error

text \<open>
  The collaborators of a run. A client of the playlist source is named by its account.
  \<open>playlist_items\<close> is the whole listing \<open>get_playlist_videos\<close> collects;
  \<open>percent_format\<close> is Python's \<open>template % fields\<close>, \<open>None\<close> when it raises;
  \<open>copy_outlasts\<close> says how many later extractions end before a copy ends.
\<close>

record api =
  getpid :: string
  environ_js_runtime :: "string option"
  which :: "string \<Rightarrow> string option"
  load_client :: "string \<Rightarrow> load_result"
  playlist_items :: "string \<Rightarrow> string \<Rightarrow> entry list api_result"
  videos_list :: "string \<Rightarrow> string \<Rightarrow> snippet option api_result"
  playlist_delete :: "string \<Rightarrow> string \<Rightarrow> bool"
  copy2 :: "string \<Rightarrow> string \<Rightarrow> bool"
  copy_outlasts :: "string \<Rightarrow> string \<Rightarrow> nat"
  utcnow :: "string \<Rightarrow> nat"
  percent_format :: "string \<Rightarrow> (string \<times> string) list \<Rightarrow> string option"
  urlopen :: bool

text \<open>
  The state of a run: the world, the ledger, and the variables of \<open>run_once\<close>.
  \<open>cleaned_name\<close> is the local variable of \<open>run_once\<close> that the callbacks read.
\<close>

record run_state =
  world :: world
  ledger :: "(string \<times> row) list"
  run_successes :: "string list"
  run_failures :: "string option list"
  yt_clients :: "string list"
  cleaned_name :: string
  pending :: "pending_copy list"

definition in_world :: "(world \<Rightarrow> world) \<Rightarrow> run_state \<Rightarrow> run_state" where
  "in_world f st = st\<lparr>world := f (world st)\<rparr>"

definition logged :: "level \<Rightarrow> log_msg \<Rightarrow> run_state \<Rightarrow> run_state" where
  "logged l m st = in_world (logging l m) st"

text \<open>\<open>a or b\<close> on optional strings.\<close>

definition or_opt :: "string option \<Rightarrow> string option \<Rightarrow> string option" where
  "or_opt x y = (case x of None \<Rightarrow> y | Some s \<Rightarrow> if s = [] then y else x)"

definition truthy :: "string option \<Rightarrow> bool" where
  "truthy x = (case x of None \<Rightarrow> False | Some s \<Rightarrow> s \<noteq> [])"

text \<open>\<open>get_video_metadata\<close> (lines 183--214).\<close>

definition thumb_url_of :: "(string \<times> string option) list \<Rightarrow> string option" where
  "thumb_url_of thumbnails =
     foldr or_opt
       (map (\<lambda>k. case map_of thumbnails k of None \<Rightarrow> None | Some u \<Rightarrow> u)
          [''maxres'', ''standard'', ''high'', ''medium''])
       (case map_of thumbnails ''default'' of None \<Rightarrow> None | Some u \<Rightarrow> u)"

definition meta_of_snippet :: "snippet \<Rightarrow> string \<Rightarrow> meta" where
  "meta_of_snippet snip video_id =
     \<lparr>m_title = sn_title snip,
      m_channel = sn_channelTitle snip,
      m_upload_date = Some (filter (\<lambda>c. c \<noteq> CHR ''-'') (take 10 (sn_publishedAt snip))),
      m_description = Some (or_else (sn_description snip) []),
      m_tags = Some (case sn_tags snip of None \<Rightarrow> [] | Some ts \<Rightarrow> ts),
      m_url = Some (''https://www.youtube.com/watch?v='' @ video_id),
      m_thumbnail_url = thumb_url_of (sn_thumbnails snip)\<rparr>"

definition get_video_metadata :: "api \<Rightarrow> string \<Rightarrow> string \<Rightarrow> meta option api_result" where
  "get_video_metadata a yt video_id =
     (case videos_list a yt video_id of
        Ok None \<Rightarrow> Ok None
      | Ok (Some snip) \<Rightarrow> Ok (Some (meta_of_snippet snip video_id))
      | Http_error \<Rightarrow> Http_error
      | Refresh_error \<Rightarrow> Refresh_error
      | Other_error x \<Rightarrow> Other_error x)"

text \<open>\<open>build_youtube_clients\<close> (lines 125--143).\<close>

fun build_youtube_clients ::
  "api \<Rightarrow> (string \<times> string option) list \<Rightarrow> run_state \<Rightarrow> run_state" where
  "build_youtube_clients a [] st = st"
| "build_youtube_clients a ((name, token) # accounts) st =
     build_youtube_clients a accounts
       (if \<not> truthy token then logged ERROR (No_token name) st
        else case load_client a (or_else token []) of
               Loaded \<Rightarrow> st\<lparr>yt_clients := yt_clients st @ [name]\<rparr>
             | Load_refresh_error \<Rightarrow> logged ERROR (Refresh_failed_account name) st
             | Load_error \<Rightarrow> logged ERROR (Client_init_failed name) st)"

text \<open>\<open>resolve_js_runtime\<close> (lines 146--159).\<close>

definition resolve_js_runtime :: "api \<Rightarrow> config \<Rightarrow> string option" where
  "resolve_js_runtime a cfg =
     (if truthy (or_opt (c_js_runtime cfg) (environ_js_runtime a))
      then or_opt (c_js_runtime cfg) (environ_js_runtime a)
      else if truthy (which a ''deno'') then Some (''deno:'' @ or_else (which a ''deno'') [])
      else if truthy (which a ''node'') then Some (''node:'' @ or_else (which a ''node'') [])
      else None)"

text \<open>The name of the copied file (lines 600--618).\<close>

definition fallback_name :: "meta \<Rightarrow> string \<Rightarrow> string \<Rightarrow> string" where
  "fallback_name m vid ext =
     pretty_filename (m_title m) (m_channel m) (m_upload_date m) @ ''_'' @ take 8 vid @
     ''.'' @ ext"

definition display_name :: "api \<Rightarrow> config \<Rightarrow> meta \<Rightarrow> string \<Rightarrow> string \<Rightarrow> string" where
  "display_name a cfg m vid ext =
     (if truthy (c_filename_template cfg)
      then (case percent_format a (or_else (c_filename_template cfg) [])
                   [(''title'', sanitize_for_filesystem (Some (or_else (m_title m) vid))),
                    (''uploader'', sanitize_for_filesystem (Some (or_else (m_channel m) []))),
                    (''upload_date'', or_else (m_upload_date m) []),
                    (''ext'', ext)] of
              Some n \<Rightarrow> n
            | None \<Rightarrow> fallback_name m vid ext)
      else fallback_name m vid ext)"

definition ext_of :: "config \<Rightarrow> string \<Rightarrow> string" where
  "ext_of cfg local_file =
     (if truthy (c_final_format cfg) then or_else (c_final_format cfg) []
      else if lstrip_dot (snd (splitext local_file)) \<noteq> []
      then lstrip_dot (snd (splitext local_file)) else ''webm'')"

text \<open>
  The insert of \<open>after_copy\<close> through a connection of its own (lines 629--638); a
  second row for a key raises and is logged.
\<close>

definition db_insert :: "api \<Rightarrow> string \<Rightarrow> string \<Rightarrow> string \<Rightarrow> run_state \<Rightarrow> run_state" where
  "db_insert a video_id playlist dst st =
     (if map_of (ledger st) video_id = None
      then st\<lparr>ledger := ledger st @
              [(video_id, \<lparr>r_playlist_id = playlist, r_downloaded_at = utcnow a video_id,
                           r_filepath = dst\<rparr>)]\<rparr>
      else logged ERROR (Db_insert_failed video_id) st)"

text \<open>
  The callback \<open>after_copy(success, dst)\<close> (lines 622--649). Its default arguments are
  those of the pending copy; \<open>cleaned_name\<close> is read from the run when the callback runs.
\<close>

definition after_copy :: "api \<Rightarrow> bool \<Rightarrow> string \<Rightarrow> pending_copy \<Rightarrow> run_state \<Rightarrow> run_state" where
  "after_copy a success dst pc st =
     (let st1 = (if success
                 then db_insert a (pc_video_id pc) (pc_playlist pc) dst
                        ((logged INFO (Copy_ok dst) st)
                           \<lparr>run_successes := run_successes st @ [cleaned_name st]\<rparr>)
                 else (logged ERROR (Copy_failed (pc_video_id pc)) st)
                        \<lparr>run_failures := run_failures st @ [Some (cleaned_name st)]\<rparr>);
          st2 = in_world (\<lambda>w. w\<lparr>fs := rmtree (pc_temp pc) (fs w)\<rparr>) st1
      in if success \<and> pc_remove pc \<and> truthy (pc_entry_id pc)
         then (let st3 = in_world
                       (emit (Playlist_delete (pc_yt_service pc) (or_else (pc_entry_id pc) [])))
                       st2
               in if playlist_delete a (pc_yt_service pc) (or_else (pc_entry_id pc) [])
                  then st3
                  else logged ERROR (Failed_removing (pc_video_id pc)) st3)
         else st2)"

text \<open>
  The thread of \<open>async_copy\<close> (lines 221--228): the copy, then the callback. The copy
  succeeds when the source is a file and the destination can be written.
\<close>

definition copy_thread :: "api \<Rightarrow> pending_copy \<Rightarrow> run_state \<Rightarrow> run_state" where
  "copy_thread a pc st =
     (let st1 = in_world (emit (Copy2 (pc_src pc) (pc_dst pc))) st in
      case lookup (fs (world st1)) (pc_src pc) of
        Some (File c) \<Rightarrow>
          if copy2 a (pc_src pc) (pc_dst pc)
          then after_copy a True (pc_dst pc) pc
                 (in_world (\<lambda>w. w\<lparr>fs := AList.update (pc_dst pc) (File c) (fs w)\<rparr>) st1)
          else after_copy a False (pc_dst pc) pc (logged ERROR Copy_exception st1)
      | _ \<Rightarrow> after_copy a False (pc_dst pc) pc (logged ERROR Copy_exception st1))"

text \<open>
  The threads run beside the main loop. The copies that end while an item is extracted
  run their thread here, the others wait; the join at the end of the run runs all that
  are left.
\<close>

definition settle :: "api \<Rightarrow> run_state \<Rightarrow> run_state" where
  "settle a st =
     fold (\<lambda>pc s. if pc_wait pc = 0 then copy_thread a pc s
                   else s\<lparr>pending := pending s @ [pc\<lparr>pc_wait := pc_wait pc - 1\<rparr>]\<rparr>)
       (pending st) (st\<lparr>pending := []\<rparr>)"

definition join_all :: "api \<Rightarrow> run_state \<Rightarrow> run_state" where
  "join_all a st = fold (copy_thread a) (pending st) (st\<lparr>pending := []\<rparr>)"

text \<open>
  The body of the loop over the entries of a playlist (lines 565--653):
  \<open>Return None\<close> goes on with the next entry, \<open>Return (Some ())\<close> is \<open>break\<close>.
\<close>

definition dispatch_copy ::
  "api \<Rightarrow> config \<Rightarrow> playlist \<Rightarrow> entry \<Rightarrow> string \<Rightarrow> meta \<Rightarrow> string \<Rightarrow> run_state \<Rightarrow> run_state" where
  "dispatch_copy a cfg pl en vid m local_file st =
     (let name = display_name a cfg m vid (ext_of cfg local_file);
          final_path = join (pl_folder pl) name;
          pc = \<lparr>pc_src = local_file, pc_dst = final_path, pc_video_id = vid,
                pc_playlist = pl_playlist_id pl, pc_entry_id = e_playlistItemId en,
                pc_temp = join ''temp_downloads'' vid,
                pc_remove = pl_remove_after_download pl, pc_yt_service = pl_account pl,
                pc_wait = copy_outlasts a local_file final_path\<rparr>
      in logged INFO Copy_started
           (st\<lparr>cleaned_name := name, pending := pending st @ [pc]\<rparr>))"

definition download_entry ::
  "api \<Rightarrow> env \<Rightarrow> config \<Rightarrow> string option \<Rightarrow> playlist \<Rightarrow> entry \<Rightarrow> string \<Rightarrow> meta
     \<Rightarrow> run_state \<Rightarrow> unit option res \<times> run_state" where
  "download_entry a e cfg js_runtime pl en vid m st =
     (let st1 = logged INFO (Start_download vid (m_title m)) st;
          temp_dir = join ''temp_downloads'' vid
      in case download_with_ytdlp e (or_else (m_url m) []) temp_dir js_runtime (Some m)
                (Some cfg) (world st1) of
           (r, w') \<Rightarrow>
             (let st2 = settle a (st1\<lparr>world := w'\<rparr>) in
              case r of
                Raise x \<Rightarrow> (Raise x, st2)
              | Return None \<Rightarrow>
                  (Return None,
                   in_world (\<lambda>w. w\<lparr>fs := rmtree temp_dir (fs w)\<rparr>)
                     ((logged WARNING (Download_failed vid) st2)
                        \<lparr>run_failures := run_failures st2 @ [m_title m]\<rparr>))
              | Return (Some local_file) \<Rightarrow>
                  if local_file = []
                  then (Return None,
                        in_world (\<lambda>w. w\<lparr>fs := rmtree temp_dir (fs w)\<rparr>)
                          ((logged WARNING (Download_failed vid) st2)
                             \<lparr>run_failures := run_failures st2 @ [m_title m]\<rparr>))
                  else (Return None, dispatch_copy a cfg pl en vid m local_file st2)))"

definition entry_body ::
  "api \<Rightarrow> env \<Rightarrow> config \<Rightarrow> string option \<Rightarrow> playlist \<Rightarrow> entry \<Rightarrow> run_state
     \<Rightarrow> unit option res \<times> run_state" where
  "entry_body a e cfg js_runtime pl en st =
     (if \<not> truthy (e_videoId en) then (Return None, st)
      else (let vid = or_else (e_videoId en) [] in
            if map_of (ledger st) vid \<noteq> None then (Return None, st)
            else (let st1 = in_world (emit (Videos_list (pl_account pl) vid)) st in
                  case get_video_metadata a (pl_account pl) vid of
                    Http_error \<Rightarrow> (Return None, logged ERROR (Metadata_fetch_failed vid) st1)
                  | Refresh_error \<Rightarrow>
                      (Return (Some ()),
                       (logged ERROR (Refresh_failed_video (pl_account pl) vid) st1)
                         \<lparr>run_failures := run_failures st1 @ [Some (vid @ '' (auth)'')],
                          yt_clients := removeAll (pl_account pl) (yt_clients st1)\<rparr>)
                  | Other_error x \<Rightarrow> (Raise x, st1)
                  | Ok None \<Rightarrow> (Return None, logged WARNING (No_metadata vid) st1)
                  | Ok (Some m) \<Rightarrow> download_entry a e cfg js_runtime pl en vid m st1)))"

text \<open>The body of the loop over the playlists (lines 542--653).\<close>

definition playlist_body ::
  "api \<Rightarrow> env \<Rightarrow> config \<Rightarrow> string option \<Rightarrow> playlist \<Rightarrow> run_state
     \<Rightarrow> unit option res \<times> run_state" where
  "playlist_body a e cfg js_runtime pl st =
     (if pl_account pl \<notin> set (yt_clients st)
      then (Return None,
            (logged ERROR (No_valid_client (pl_account pl) (pl_playlist_id pl)) st)
              \<lparr>run_failures := run_failures st @ [Some (pl_playlist_id pl @ '' (auth)'')]\<rparr>)
      else (let st1 = in_world (emit (Playlist_list (pl_account pl) (pl_playlist_id pl))) st in
            case playlist_items a (pl_account pl) (pl_playlist_id pl) of
              Http_error \<Rightarrow>
                (Return None, logged ERROR (Playlist_fetch_failed (pl_playlist_id pl)) st1)
            | Refresh_error \<Rightarrow>
                (Return None,
                 (logged ERROR (Refresh_failed_playlist (pl_account pl) (pl_playlist_id pl)) st1)
                   \<lparr>run_failures := run_failures st1 @ [Some (pl_playlist_id pl @ '' (auth)'')],
                    yt_clients := removeAll (pl_account pl) (yt_clients st1)\<rparr>)
            | Other_error x \<Rightarrow> (Raise x, st1)
            | Ok videos \<Rightarrow>
                (case for_each (entry_body a e cfg js_runtime pl) videos st1 of
                   (Raise x, st2) \<Rightarrow> (Raise x, st2)
                 | (Return b, st2) \<Rightarrow> (Return None, st2))))"

text \<open>The \<open>finally\<close> block of \<open>run_once\<close> (lines 661--678).\<close>

definition LOCK_FILE :: string where
  "LOCK_FILE = ''/tmp/yt_archiver.lock''"

definition telegram_notify :: "api \<Rightarrow> config \<Rightarrow> run_state \<Rightarrow> run_state" where
  "telegram_notify a cfg st =
     (case c_telegram cfg of
        None \<Rightarrow> st
      | Some (token, chat_id) \<Rightarrow>
          if \<not> truthy token \<or> \<not> truthy chat_id then st
          else (let st1 = in_world (emit (Send_summary (run_successes st) (run_failures st))) st
                in if urlopen a then st1 else logged ERROR Telegram_failed st1))"

definition finally_block :: "api \<Rightarrow> config \<Rightarrow> run_state \<Rightarrow> unit res \<times> run_state" where
  "finally_block a cfg st =
     (let st1 = (if run_successes st \<noteq> [] \<or> run_failures st \<noteq> []
                 then telegram_notify a cfg st else st)
      in case unlink LOCK_FILE (fs (world st1)) of
           Inr f' \<Rightarrow> (Return (), in_world (\<lambda>w. w\<lparr>fs := f'\<rparr>) st1)
         | Inl x \<Rightarrow> if x = FileNotFoundError then (Return (), st1) else (Raise x, st1))"

text \<open>\<open>run_once(config)\<close> (lines 518--678).\<close>

definition run_once :: "api \<Rightarrow> env \<Rightarrow> config \<Rightarrow> run_state \<Rightarrow> unit res \<times> run_state" where
  "run_once a e cfg st =
     (if path_exists (fs (world st)) LOCK_FILE
      then (Return (), logged WARNING Lockfile_present st)
      else case write_file LOCK_FILE (getpid a) (fs (world st)) of
             Inl x \<Rightarrow> (Raise x, st)
           | Inr f1 \<Rightarrow>
               (case makedirs ''database'' f1 of
                  Inl x \<Rightarrow> (Raise x, in_world (\<lambda>w. w\<lparr>fs := f1\<rparr>) st)
                | Inr f2 \<Rightarrow>
                    (let st1 = build_youtube_clients a (c_accounts cfg)
                                 ((in_world (\<lambda>w. w\<lparr>fs := f2\<rparr>) st)
                                    \<lparr>run_successes := [], run_failures := [],
                                     yt_clients := [], cleaned_name := [], pending := []\<rparr>)
                     in case for_each (playlist_body a e cfg (resolve_js_runtime a cfg))
                               (c_playlists cfg) st1 of
                          (Raise x, st2) \<Rightarrow>
                            (case finally_block a cfg st2 of
                               (Raise y, st3) \<Rightarrow> (Raise y, st3)
                             | (Return u, st3) \<Rightarrow> (Raise x, st3))
                        | (Return b, st2) \<Rightarrow>
                            finally_block a cfg
                              (logged INFO Separator (logged INFO Run_complete
                                 (logged INFO Separator (join_all a st2)))))))"

text \<open>
  A run over one playlist with two new items: every extraction succeeds at once; the copy
  of the first item outlasts the extraction of the second and then fails.
\<close>

definition two_item_env :: env where
  "two_item_env =
     quiet_env\<lparr>extract_info :=
       (\<lambda>url pass client retry. (Info True, [(vid_of_url url @ ''.webm'', File ''vp9'')]))\<rparr>"

definition sample_snippet :: "string \<Rightarrow> snippet" where
  "sample_snippet vid =
     \<lparr>sn_title = Some (''Video '' @ vid), sn_channelTitle = Some ''Chan'',
      sn_publishedAt = ''2023-01-15T10:00:00Z'', sn_description = None, sn_tags = None,
      sn_thumbnails = []\<rparr>"

definition slow_copy_api :: api where
  "slow_copy_api =
     \<lparr>getpid = ''4242'', environ_js_runtime = None, which = (\<lambda>name. None),
      load_client = (\<lambda>token. Loaded),
      playlist_items = (\<lambda>yt playlist_id.
         Ok [\<lparr>e_videoId = Some ''aaa'', e_playlistItemId = Some ''item1''\<rparr>,
             \<lparr>e_videoId = Some ''bbb'', e_playlistItemId = Some ''item2''\<rparr>]),
      videos_list = (\<lambda>yt vid. Ok (Some (sample_snippet vid))),
      playlist_delete = (\<lambda>yt entry_id. True),
      copy2 = (\<lambda>src dst. src \<noteq> ''temp_downloads/aaa/aaa.webm''),
      copy_outlasts = (\<lambda>src dst. if src = ''temp_downloads/aaa/aaa.webm'' then 1 else 0),
      utcnow = (\<lambda>vid. 1000),
      percent_format = (\<lambda>template fields. None),
      urlopen = True\<rparr>"

definition http_error_api :: api where
  "http_error_api = slow_copy_api\<lparr>playlist_items := (\<lambda>yt playlist_id. Http_error)\<rparr>"

definition refresh_error_api :: api where
  "refresh_error_api = slow_copy_api\<lparr>playlist_items := (\<lambda>yt playlist_id. Refresh_error)\<rparr>"

definition sample_playlist :: playlist where
  "sample_playlist =
     \<lparr>pl_playlist_id = ''PL1'', pl_folder = ''/library'', pl_account = ''main'',
      pl_remove_after_download = False\<rparr>"

definition sample_config :: config where
  "sample_config =
     \<lparr>c_final_format = None, c_yt_dlp_opts = None, c_filename_template = None,
      c_js_runtime = None, c_accounts = [(''main'', Some ''tokens/main.json'')],
      c_playlists = [sample_playlist], c_telegram = None\<rparr>"

definition initial_state :: run_state where
  "initial_state =
     \<lparr>world = empty_world, ledger = [], run_successes = [], run_failures = [],
      yt_clients = [], cleaned_name = [], pending = []\<rparr>"

definition started_state :: run_state where
  "started_state = initial_state\<lparr>yt_clients := [''main'']\<rparr>"

text \<open>
  The events of a trace that show work on the item \<open>vid\<close>: the fetch of its metadata,
  the start of its download, an extractor call on its URL, and the two log lines of a copy
  thread that name it.
\<close>

definition about :: "string \<Rightarrow> event \<Rightarrow> bool" where
  "about vid ev =
     (case ev of
        Videos_list yt v \<Rightarrow> v = vid
      | Ydl opts url \<Rightarrow> url = ''https://www.youtube.com/watch?v='' @ vid
      | Log l m \<Rightarrow>
          (case m of
             Start_download v t \<Rightarrow> v = vid
           | Copy_failed v \<Rightarrow> v = vid
           | Db_insert_failed v \<Rightarrow> v = vid
           | _ \<Rightarrow> False)
      | _ \<Rightarrow> False)"

definition work_on :: "string \<Rightarrow> world \<Rightarrow> event list" where
  "work_on vid w = filter (about vid) (trace w)"

text \<open>
  A proof device for the run: the ledger has a row for \<open>vid\<close>, no pending copy is one of
  \<open>vid\<close>, and the events of the trace that show work on \<open>vid\<close> are \<open>T\<close>.
\<close>

definition settled :: "string \<Rightarrow> event list \<Rightarrow> run_state \<Rightarrow> bool" where
  "settled vid T st =
     (map_of (ledger st) vid \<noteq> None
      \<and> list_all (\<lambda>pc. pc_video_id pc \<noteq> vid) (pending st)
      \<and> work_on vid (world st) = T)"

text \<open>
  Reading a muxer command: the values that follow a \<open>-metadata\<close> flag and set the
  \<open>date\<close> tag. The commands run by the program are the \<open>Ffmpeg\<close> events of the trace.
\<close>

fun date_tags :: "string list \<Rightarrow> string list" where
  "date_tags (a # b # rest) =
     (if a = ''-metadata'' \<and> startswith b ''date='' then [b] else []) @ date_tags (b # rest)"
| "date_tags [a] = []"
| "date_tags [] = []"

definition ffmpeg_cmds :: "event list \<Rightarrow> string list list" where
  "ffmpeg_cmds tr = List.map_filter (\<lambda>ev. case ev of Ffmpeg cmd \<Rightarrow> Some cmd | _ \<Rightarrow> None) tr"

definition short_date_meta :: meta where
  "short_date_meta = sample_meta\<lparr>m_upload_date := Some ''2023-01''\<rparr>"

text \<open>An environment in which no temporary file can be made.\<close>

definition no_temp_env :: env where
  "no_temp_env = two_item_env\<lparr>tmp_names := []\<rparr>"


section \<open>The partial-file monitor\<close>

lemma stuck_scan_iff:
  "stuck_scan f temp_dir vid ns \<longleftrightarrow>
     list_ex (\<lambda>n. startswith n vid \<and> endswith n ''.part'' \<and>
        (case getsize f (join temp_dir n) of Inr sz \<Rightarrow> sz < 524288 | Inl e \<Rightarrow> True)) ns"
  by (induction ns) (auto split: sum.splits)

text \<open>
  C4. In an existing scratch directory: if some listed name with the identifier as prefix
  and the suffix \<open>.part\<close> has a size below 524288 bytes, the monitor answers stalled; if
  every such name has a size of at least 524288 bytes, it answers not stalled; if reading
  the size of such a name raises, it answers stalled.
\<close>

theorem partial_file_monitor_threshold:
  assumes "isdir f temp_dir"
  shows "((\<exists>n \<in> set (listdir f temp_dir). startswith n vid \<and> endswith n ''.part'' \<and>
            (\<exists>sz. getsize f (join temp_dir n) = Inr sz \<and> sz < 524288))
          \<longrightarrow> is_partial_file_stuck f temp_dir vid)
       \<and> ((\<forall>n \<in> set (listdir f temp_dir). startswith n vid \<and> endswith n ''.part'' \<longrightarrow>
            (\<exists>sz. getsize f (join temp_dir n) = Inr sz \<and> 524288 \<le> sz))
          \<longrightarrow> \<not> is_partial_file_stuck f temp_dir vid)
       \<and> ((\<exists>n \<in> set (listdir f temp_dir). startswith n vid \<and> endswith n ''.part'' \<and>
            (\<exists>e. getsize f (join temp_dir n) = Inl e))
          \<longrightarrow> is_partial_file_stuck f temp_dir vid)"
proof -
  have eq: "is_partial_file_stuck f temp_dir vid \<longleftrightarrow>
      (\<exists>n \<in> set (listdir f temp_dir). startswith n vid \<and> endswith n ''.part'' \<and>
        (case getsize f (join temp_dir n) of Inr sz \<Rightarrow> sz < 524288 | Inl e \<Rightarrow> True))"
    using assms by (simp add: is_partial_file_stuck_def stuck_scan_iff list_ex_iff)
  show ?thesis
    unfolding eq by (fastforce split: sum.splits)
qed

lemma small_partial_listing:
  "listdir small_partial_fs ''temp_downloads/abc'' = [''abc.f248.webm.part'']"
  "listdir large_partial_fs ''temp_downloads/abc'' = [''abc.f248.webm.part'']"
  "listdir unreadable_partial_fs ''temp_downloads/abc'' = [''abc.f248.webm.part'']"
  by (simp_all add: listdir_def small_partial_fs_def large_partial_fs_def
      unreadable_partial_fs_def List.map_filter_def child_name_def dir_prefix_def
      startswith_def endswith_def)

theorem partial_file_monitor_threshold_witness:
  "is_partial_file_stuck small_partial_fs ''temp_downloads/abc'' ''abc''
   \<and> \<not> is_partial_file_stuck large_partial_fs ''temp_downloads/abc'' ''abc''
   \<and> is_partial_file_stuck unreadable_partial_fs ''temp_downloads/abc'' ''abc''"
proof -
  have j: "join ''temp_downloads/abc'' ''abc.f248.webm.part''
      = ''temp_downloads/abc/abc.f248.webm.part''"
    by (simp add: join_def startswith_def endswith_def)
  have m: "startswith ''abc.f248.webm.part'' ''abc''" "endswith ''abc.f248.webm.part'' ''.part''"
    by (simp_all add: startswith_def endswith_def)
  have d: "isdir small_partial_fs ''temp_downloads/abc''"
    "isdir large_partial_fs ''temp_downloads/abc''"
    "isdir unreadable_partial_fs ''temp_downloads/abc''"
    by (simp_all add: isdir_def lookup_def small_partial_fs_def large_partial_fs_def
        unreadable_partial_fs_def)
  have s1: "getsize small_partial_fs ''temp_downloads/abc/abc.f248.webm.part'' = Inr 10"
    by (simp add: getsize_def lookup_def small_partial_fs_def)
  have s2: "getsize large_partial_fs ''temp_downloads/abc/abc.f248.webm.part'' = Inr 524288"
    by (simp add: getsize_def lookup_def large_partial_fs_def)
  have s3: "getsize unreadable_partial_fs ''temp_downloads/abc/abc.f248.webm.part'' = Inl OSError"
    by (simp add: getsize_def lookup_def unreadable_partial_fs_def)
  have "is_partial_file_stuck small_partial_fs ''temp_downloads/abc'' ''abc''"
    using partial_file_monitor_threshold [OF d(1), of "''abc''"]
    by (simp add: small_partial_listing j m s1)
  moreover have "\<not> is_partial_file_stuck large_partial_fs ''temp_downloads/abc'' ''abc''"
    using partial_file_monitor_threshold [OF d(2), of "''abc''"]
    by (simp add: small_partial_listing j m s2)
  moreover have "is_partial_file_stuck unreadable_partial_fs ''temp_downloads/abc'' ''abc''"
    using partial_file_monitor_threshold [OF d(3), of "''abc''"]
    by (simp add: small_partial_listing j m s3)
  ultimately show ?thesis by simp
qed

text \<open>
  C10. When the scratch directory does not exist, the monitor answers not stalled, for
  every identifier.
\<close>

theorem missing_scratch_dir_not_stalled:
  "\<not> path_exists f temp_dir \<Longrightarrow> \<not> is_partial_file_stuck f temp_dir vid"
  by (auto simp add: is_partial_file_stuck_def isdir_def path_exists_def)

theorem missing_scratch_dir_not_stalled_witness:
  "\<not> path_exists [] ''temp_downloads/abc''
   \<and> \<not> is_partial_file_stuck [] ''temp_downloads/abc'' ''abc''"
proof -
  have h: "\<not> path_exists [] ''temp_downloads/abc''"
    by (simp add: path_exists_def lookup_def)
  show ?thesis
    using h missing_scratch_dir_not_stalled [OF h, of "''abc''"] by simp
qed

section \<open>File system facts\<close>

lemma lookup_update: "lookup (AList.update k v f) p = (if p = k then Some v else lookup f p)"
  by (simp add: lookup_def update_conv')

lemma lookup_delete: "lookup (AList.delete k f) p = (if p = k then None else lookup f p)"
  by (simp add: lookup_def delete_conv')

lemma mkstemp_fresh:
  assumes "mkstemp e suffix dir f = Inr (tmp_path, f2)"
  shows "lookup f tmp_path = None \<and> f2 = AList.update tmp_path (File []) f"
proof -
  let ?c = "filter (\<lambda>p. lookup f p = None)
      (map (\<lambda>n. join dir (''tmp'' @ n @ suffix)) (tmp_names e))"
  from assms obtain ps where c: "?c = tmp_path # ps"
    and f2: "f2 = AList.update tmp_path (File []) f"
    by (auto simp add: mkstemp_def split: list.splits)
  have "tmp_path \<in> set ?c" unfolding c by (rule list.set_intros(1))
  then have "lookup f tmp_path = None" by simp
  with f2 show ?thesis by simp
qed

lemma discard_lookup:
  "lookup (fs w) p \<noteq> Some Dir \<Longrightarrow>
   lookup (fs (discard p w)) q = (if q = p then None else lookup (fs w) q)"
  by (auto simp add: discard_def unlink_def lookup_delete split: option.splits node.splits)

lemma discard_trace: "trace (discard p w) = trace w"
  by (simp add: discard_def split: sum.splits)

lemma trace_run_ffmpeg: "trace (snd (run_ffmpeg e cmd w)) = trace w @ [Ffmpeg cmd]"
  by (simp add: run_ffmpeg_def emit_def Let_def split: proc_outcome.splits option.splits)

lemma splitext_abc_webm:
  "splitext ''temp_downloads/abc/abc.webm'' = (''temp_downloads/abc/abc'', ''.webm'')"
  by (simp add: splitext_def Let_def)

lemma splitext_abc_mp4:
  "splitext ''temp_downloads/abc/abc.mp4'' = (''temp_downloads/abc/abc'', ''.mp4'')"
  by (simp add: splitext_def Let_def)

lemma current_ext_abc:
  "current_ext_of ''temp_downloads/abc/abc.webm'' = ''webm''"
  "current_ext_of ''temp_downloads/abc/abc.mp4'' = ''mp4''"
  by (simp_all add: current_ext_of_def splitext_abc_webm splitext_abc_mp4 lstrip_dot_def
      lower_def lower_char_def upper_chars_def lower_chars_def)

section \<open>The container converter\<close>

text \<open>
  C1, as the claim states it, fails: with a finished \<open>.webm\<close> file and \<open>mp4\<close> as the
  final format, the stream-copy remux is run, the \<open>.mp4\<close> file is produced and the
  \<open>.webm\<close> file is removed.
\<close>

theorem webm_to_mp4_is_attempted:
  "current_ext_of ''temp_downloads/abc/abc.webm'' = ''webm''
   \<and> final_format_conversion quiet_env (Some (cfg_final ''mp4''))
       ''temp_downloads/abc/abc.webm'' ''abc'' webm_world =
     (''temp_downloads/abc/abc.mp4'',
      \<lparr>fs = [(''temp_downloads/abc'', Dir),
             (''temp_downloads/abc/abc.mp4'', File ''remuxed'')],
       trace = [Ffmpeg [''ffmpeg'', ''-y'', ''-i'', ''temp_downloads/abc/abc.webm'',
                        ''-c'', ''copy'', ''temp_downloads/abc/abc.mp4'']]\<rparr>)"
  by (simp add: final_format_conversion_def desired_ext_of_def cfg_final_def current_ext_abc
      splitext_abc_webm run_ffmpeg_def emit_def quiet_env_def remux_cmd_def webm_world_def
      unlink_def lookup_def AList.delete_eq Let_def)

text \<open>
  C1, amended. With a final format requested: when the finished file has the extension
  \<open>mp4\<close> (compared in lower case) and the requested extension is \<open>webm\<close>, the conversion
  is refused: a warning is logged, no remux is run, the file system is unchanged and the
  path of the source is returned. When the extension already is the requested one, nothing
  happens. Every other extension change is attempted: the stream-copy remux into the path
  with the requested extension is run.
\<close>

theorem conversion_policy:
  assumes "desired_ext_of config = Some desired"
  shows "(current_ext_of chosen = ''mp4'' \<and> desired = ''webm'' \<longrightarrow>
            final_format_conversion e config chosen vid w =
              (chosen, w\<lparr>trace := trace w @ [Log WARNING (Skipping_mp4_webm vid)]\<rparr>))
       \<and> (current_ext_of chosen = desired \<longrightarrow>
            final_format_conversion e config chosen vid w = (chosen, w))
       \<and> (desired \<noteq> [] \<and> current_ext_of chosen \<noteq> desired
            \<and> \<not> (current_ext_of chosen = ''mp4'' \<and> desired = ''webm'') \<longrightarrow>
            (\<exists>rest. trace (snd (final_format_conversion e config chosen vid w)) =
               trace w @ Ffmpeg (remux_cmd chosen (fst (splitext chosen) @ ''.'' @ desired)) # rest))"
proof (intro conjI impI)
  assume "current_ext_of chosen = ''mp4'' \<and> desired = ''webm''"
  then show "final_format_conversion e config chosen vid w =
      (chosen, w\<lparr>trace := trace w @ [Log WARNING (Skipping_mp4_webm vid)]\<rparr>)"
    using assms by (simp add: final_format_conversion_def logging_def emit_def)
next
  assume "current_ext_of chosen = desired"
  then show "final_format_conversion e config chosen vid w = (chosen, w)"
    using assms by (auto simp add: final_format_conversion_def)
next
  let ?cmd = "remux_cmd chosen (fst (splitext chosen) @ ''.'' @ desired)"
  assume h: "desired \<noteq> [] \<and> current_ext_of chosen \<noteq> desired
      \<and> \<not> (current_ext_of chosen = ''mp4'' \<and> desired = ''webm'')"
  obtain r w1 where run: "run_ffmpeg e ?cmd w = (r, w1)"
    by (cases "run_ffmpeg e ?cmd w")
  have t: "trace w1 = trace w @ [Ffmpeg ?cmd]"
    using trace_run_ffmpeg [of e ?cmd w] run by simp
  show "\<exists>rest. trace (snd (final_format_conversion e config chosen vid w)) =
      trace w @ Ffmpeg ?cmd # rest"
    using assms h run t
    by (cases r) (auto simp add: final_format_conversion_def Let_def logging_def emit_def
        split: sum.splits)
qed

theorem conversion_policy_witness:
  "final_format_conversion quiet_env (Some (cfg_final ''webm''))
       ''temp_downloads/abc/abc.mp4'' ''abc'' mp4_world =
     (''temp_downloads/abc/abc.mp4'',
      mp4_world\<lparr>trace := [Log WARNING (Skipping_mp4_webm ''abc'')]\<rparr>)
   \<and> final_format_conversion quiet_env (Some (cfg_final ''webm''))
       ''temp_downloads/abc/abc.webm'' ''abc'' webm_world =
     (''temp_downloads/abc/abc.webm'', webm_world)
   \<and> (\<exists>rest. trace (snd (final_format_conversion quiet_env (Some (cfg_final ''mkv''))
          ''temp_downloads/abc/abc.webm'' ''abc'' webm_world)) =
        Ffmpeg [''ffmpeg'', ''-y'', ''-i'', ''temp_downloads/abc/abc.webm'', ''-c'', ''copy'',
                ''temp_downloads/abc/abc.mkv''] # rest)"
proof -
  have d: "desired_ext_of (Some (cfg_final x)) = Some x" for x
    by (simp add: desired_ext_of_def cfg_final_def)
  have t: "trace webm_world = []" "trace mp4_world = []"
    by (simp_all add: webm_world_def mp4_world_def)
  show ?thesis
    using conversion_policy [OF d, of "''temp_downloads/abc/abc.mp4''" "''webm''" quiet_env
        "''abc''" mp4_world]
      conversion_policy [OF d, of "''temp_downloads/abc/abc.webm''" "''webm''" quiet_env
        "''abc''" webm_world]
      conversion_policy [OF d, of "''temp_downloads/abc/abc.webm''" "''mkv''" quiet_env
        "''abc''" webm_world]
    by (simp add: current_ext_abc splitext_abc_webm remux_cmd_def t)
qed

section \<open>The metadata embedder\<close>

lemma embed_metadata_without_meta:
  "embed_metadata e local_file None video_id w = (Return (), w)"
  by (simp add: embed_metadata_def)

lemma download_thumbnail_effect:
  assumes "download_thumbnail e url video_id w = (thumb_path, w1)"
      and "lookup (fs w) p = Some (File c)" and "thumb_file video_id \<noteq> p"
  shows "lookup (fs w1) p = Some (File c)"
    and "thumb_path = Some tp \<Longrightarrow>
         tp = thumb_file video_id \<and> (\<exists>d. lookup (fs w1) tp = Some (File d))"
  using assms
  by (auto simp add: download_thumbnail_def logging_def emit_def makedirs_def write_file_def
      lookup_update Let_def
      split: option.splits if_splits sum.splits http_result.splits node.splits)

text \<open>
  Embedding on a finished file, once its temporary file is made: the call returns
  normally whatever the muxer does. When the muxer completes, the finished file is
  replaced by the tagged temporary file; when it fails, the finished file keeps its bytes;
  in both cases the temporary file is gone afterwards, and so is the thumbnail file that
  was downloaded.
\<close>

theorem embedding_outcomes:
  assumes orig: "lookup (fs w) local_file = Some (File original)"
      and apart: "thumb_file video_id \<noteq> local_file"
      and thumb: "download_thumbnail e (m_thumbnail_url m) video_id w = (thumb_path, w1)"
      and tmp: "mkstemp e (''.tagged'' @ (if snd (splitext local_file) \<noteq> []
                   then snd (splitext local_file) else ''.webm''))
                 (dirname local_file) (fs w1) = Inr (tmp_path, f2)"
  shows "\<exists>w'. embed_metadata e local_file (Some m) video_id w = (Return (), w')
       \<and> (\<forall>out. ffmpeg e (embed_cmd f2 local_file thumb_path m video_id tmp_path) = Completed out
            \<longrightarrow> lookup (fs w') local_file = Some (File out))
       \<and> ((\<forall>out. ffmpeg e (embed_cmd f2 local_file thumb_path m video_id tmp_path) \<noteq> Completed out)
            \<longrightarrow> lookup (fs w') local_file = Some (File original))
       \<and> lookup (fs w') tmp_path = None
       \<and> (\<forall>tp. thumb_path = Some tp \<longrightarrow> lookup (fs w') tp = None)"
proof -
  let ?cmd = "embed_cmd f2 local_file thumb_path m video_id tmp_path"
  let ?w2 = "w1\<lparr>fs := f2\<rparr>"
  let ?w3 = "tag_file e local_file thumb_path m video_id tmp_path ?w2"
  let ?w' = "cleanup_thumbnail thumb_path ?w3"
  have fresh: "lookup (fs w1) tmp_path = None"
    and f2: "f2 = AList.update tmp_path (File []) (fs w1)"
    using mkstemp_fresh [OF tmp] by simp_all
  have file1: "lookup (fs w1) local_file = Some (File original)"
    using download_thumbnail_effect(1) [OF thumb orig apart] .
  have ne: "tmp_path \<noteq> local_file"
    using fresh file1 by auto
  have tp: "thumb_path = Some tp \<Longrightarrow> tp \<noteq> local_file \<and> tp \<noteq> tmp_path
      \<and> (\<exists>d. lookup (fs w1) tp = Some (File d))" for tp
    using download_thumbnail_effect(2) [OF thumb orig apart, of tp] apart fresh by auto
  have last: "last ?cmd = tmp_path"
    by (simp add: embed_cmd_def)
  have res: "embed_metadata e local_file (Some m) video_id w = (Return (), ?w')"
    using thumb tmp by (simp add: embed_metadata_def Let_def)
  have w3: "lookup (fs ?w3) tmp_path = None
      \<and> (\<forall>out. ffmpeg e ?cmd = Completed out \<longrightarrow> lookup (fs ?w3) local_file = Some (File out))
      \<and> ((\<forall>out. ffmpeg e ?cmd \<noteq> Completed out)
           \<longrightarrow> lookup (fs ?w3) local_file = Some (File original))
      \<and> (\<forall>q. q \<noteq> tmp_path \<and> q \<noteq> local_file \<longrightarrow> lookup (fs ?w3) q = lookup (fs w1) q)"
  proof (cases "ffmpeg e ?cmd")
    case (Completed out)
    then show ?thesis
      using ne file1 last
      by (simp add: tag_file_def run_ffmpeg_def emit_def logging_def replace_def isdir_def
          lookup_update lookup_delete f2 Let_def)
  next
    case (Failed part)
    then show ?thesis
      using ne file1 last
      by (cases part)
        (simp_all add: tag_file_def run_ffmpeg_def emit_def logging_def discard_lookup
          lookup_update f2 Let_def)
  next
    case Not_started
    then show ?thesis
      using ne file1 last
      by (simp add: tag_file_def run_ffmpeg_def emit_def logging_def discard_lookup
          lookup_update f2 Let_def)
  qed
  have w': "lookup (fs ?w') tmp_path = None
      \<and> lookup (fs ?w') local_file = lookup (fs ?w3) local_file
      \<and> (\<forall>tp. thumb_path = Some tp \<longrightarrow> lookup (fs ?w') tp = None)"
  proof (cases thumb_path)
    case None
    then show ?thesis using w3 by (simp add: cleanup_thumbnail_def)
  next
    case (Some tp)
    from tp [OF Some] obtain d where d: "tp \<noteq> local_file" "tp \<noteq> tmp_path"
        "lookup (fs w1) tp = Some (File d)" by auto
    then have "lookup (fs ?w3) tp = Some (File d)" using w3 by simp
    then have "lookup (fs ?w3) tp \<noteq> Some Dir" by simp
    from discard_lookup [OF this] show ?thesis
      using Some d w3 by (simp add: cleanup_thumbnail_def)
  qed
  show ?thesis
    using res w3 w' by auto
qed

theorem embedding_outcomes_witness:
  "fst (embed_metadata quiet_env ''temp_downloads/abc/abc.webm'' (Some sample_meta) ''abc''
          webm_world) = Return ()
   \<and> lookup (fs (snd (embed_metadata quiet_env ''temp_downloads/abc/abc.webm''
          (Some sample_meta) ''abc'' webm_world))) ''temp_downloads/abc/abc.webm''
       = Some (File ''remuxed'')
   \<and> lookup (fs (snd (embed_metadata failing_muxer_env ''temp_downloads/abc/abc.webm''
          (Some sample_meta) ''abc'' webm_world))) ''temp_downloads/abc/abc.webm''
       = Some (File ''media'')
   \<and> lookup (fs (snd (embed_metadata failing_muxer_env ''temp_downloads/abc/abc.webm''
          (Some sample_meta) ''abc'' webm_world))) ''temp_downloads/abc/tmpk3x9q2ab.tagged.webm''
       = None
   \<and> lookup (fs (snd (embed_metadata failing_muxer_env ''temp_downloads/abc/abc.webm''
          (Some sample_meta) ''abc'' webm_world))) ''/tmp/yt-dlp/thumbs/abc.jpg'' = None"
proof -
  let ?w1 = "\<lparr>fs = [(''temp_downloads/abc'', Dir),
                    (''temp_downloads/abc/abc.webm'', File ''media''),
                    (''/tmp/yt-dlp/thumbs'', Dir),
                    (''/tmp/yt-dlp/thumbs/abc.jpg'', File ''jpeg'')],
               trace = [Http_get ''https://i.ytimg.com/vi/abc/default.jpg'']\<rparr>"
  let ?f2 = "[(''temp_downloads/abc'', Dir),
              (''temp_downloads/abc/abc.webm'', File ''media''),
              (''/tmp/yt-dlp/thumbs'', Dir),
              (''/tmp/yt-dlp/thumbs/abc.jpg'', File ''jpeg''),
              (''temp_downloads/abc/tmpk3x9q2ab.tagged.webm'', File [])]"
  have orig: "lookup (fs webm_world) ''temp_downloads/abc/abc.webm'' = Some (File ''media'')"
    by (simp add: webm_world_def lookup_def)
  have apart: "thumb_file ''abc'' \<noteq> ''temp_downloads/abc/abc.webm''"
    by (simp add: thumb_file_def join_def startswith_def endswith_def)
  have thumb: "download_thumbnail e (m_thumbnail_url sample_meta) ''abc'' webm_world
      = (Some ''/tmp/yt-dlp/thumbs/abc.jpg'', ?w1)"
    if "http_get e = (\<lambda>url. Response True ''jpeg'')" for e
    using that
    by (simp add: download_thumbnail_def sample_meta_def webm_world_def makedirs_def lookup_def
        emit_def write_file_def isdir_def thumb_file_def join_def startswith_def endswith_def)
  have tmp: "mkstemp e (''.tagged'' @ (if snd (splitext ''temp_downloads/abc/abc.webm'') \<noteq> []
                 then snd (splitext ''temp_downloads/abc/abc.webm'') else ''.webm''))
               (dirname ''temp_downloads/abc/abc.webm'') (fs ?w1)
      = Inr (''temp_downloads/abc/tmpk3x9q2ab.tagged.webm'', ?f2)"
    if "tmp_names e = [''k3x9q2ab'']" for e
    using that
    by (simp add: mkstemp_def splitext_abc_webm dirname_def Let_def join_def startswith_def
        endswith_def lookup_def)
  have q: "http_get quiet_env = (\<lambda>url. Response True ''jpeg'')" "tmp_names quiet_env = [''k3x9q2ab'']"
    "http_get failing_muxer_env = (\<lambda>url. Response True ''jpeg'')"
    "tmp_names failing_muxer_env = [''k3x9q2ab'']"
    "\<And>cmd. ffmpeg quiet_env cmd = Completed ''remuxed''"
    "\<And>cmd. ffmpeg failing_muxer_env cmd = Failed (Some ''part'')"
    by (simp_all add: quiet_env_def failing_muxer_env_def)
  show ?thesis
    using embedding_outcomes [OF orig apart thumb [OF q(1)] tmp [OF q(2)]]
      embedding_outcomes [OF orig apart thumb [OF q(3)] tmp [OF q(4)]]
    by (auto simp add: q)
qed

text \<open>
  C5. The temporary file is made before the \<open>try\<close> block (line 319). When it cannot
  be made, the exception leaves \<open>embed_metadata\<close>: the \<open>finally\<close> block is not
  reached, so the thumbnail that was downloaded stays, and no caller handles the
  exception: \<open>download_with_ytdlp\<close> raises it (line 483) and so does \<open>run_once\<close> (line
  593), which ends with nothing in the ledger and nothing in its list of failures.
\<close>

theorem embedding_aborts_without_temp_file:
  "fst (embed_metadata no_temp_env ''temp_downloads/abc/abc.webm'' (Some sample_meta) ''abc''
          webm_world) = Raise FileExistsError
   \<and> lookup (fs (snd (embed_metadata no_temp_env ''temp_downloads/abc/abc.webm''
          (Some sample_meta) ''abc'' webm_world))) (thumb_file ''abc'') = Some (File ''jpeg'')
   \<and> fst (download_with_ytdlp no_temp_env ''https://www.youtube.com/watch?v=abc''
          ''temp_downloads/abc'' None (Some sample_meta) (Some sample_config) empty_world)
       = Raise FileExistsError
   \<and> fst (run_once slow_copy_api no_temp_env sample_config initial_state)
       = Raise FileExistsError
   \<and> ledger (snd (run_once slow_copy_api no_temp_env sample_config initial_state)) = []
   \<and> run_failures (snd (run_once slow_copy_api no_temp_env sample_config initial_state)) = []"
  by code_simp

section \<open>Date normalisation\<close>

lemma date_tags_embed_cmd:
  "date_tags (embed_cmd f local_file thumb_path m video_id tmp_path) =
     (if date_tag (upload_date_of m) \<noteq> [] then [''date='' @ date_tag (upload_date_of m)] else [])"
  by (auto simp add: embed_cmd_def core_metadata_def metadata_arg_def startswith_def
      split: option.splits)

lemma ffmpeg_cmds_append: "ffmpeg_cmds (xs @ ys) = ffmpeg_cmds xs @ ffmpeg_cmds ys"
  by (simp add: ffmpeg_cmds_def List.map_filter_def)

lemma ffmpeg_cmds_simps:
  "ffmpeg_cmds [] = []"
  "ffmpeg_cmds (Ffmpeg cmd # tr) = cmd # ffmpeg_cmds tr"
  "ffmpeg_cmds (Log l msg # tr) = ffmpeg_cmds tr"
  "ffmpeg_cmds (Http_get u # tr) = ffmpeg_cmds tr"
  by (simp_all add: ffmpeg_cmds_def List.map_filter_def)

lemma ffmpeg_cmds_download_thumbnail:
  "ffmpeg_cmds (trace (snd (download_thumbnail e url video_id w))) = ffmpeg_cmds (trace w)"
  by (auto simp add: download_thumbnail_def Let_def logging_def emit_def ffmpeg_cmds_append
      ffmpeg_cmds_simps
      split: option.splits sum.splits http_result.splits)

lemma ffmpeg_cmds_tag_file:
  "ffmpeg_cmds (trace (tag_file e local_file thumb_path m video_id tmp_path w)) =
     ffmpeg_cmds (trace w) @ [embed_cmd (fs w) local_file thumb_path m video_id tmp_path]"
  by (auto simp add: tag_file_def run_ffmpeg_def Let_def logging_def emit_def discard_trace
      ffmpeg_cmds_append ffmpeg_cmds_simps
      split: proc_outcome.splits option.splits sum.splits)

lemma trace_cleanup_thumbnail: "trace (cleanup_thumbnail thumb_path w) = trace w"
  by (simp add: cleanup_thumbnail_def discard_trace split: option.splits)

text \<open>
  C9. An embedding that returns has run the muxer once, and the command it ran sets the
  \<open>date\<close> tag (a \<open>-metadata\<close> flag followed by \<open>date=\<close> and a value) exactly when
  the upload date has length 8 and is all digits, digits being the characters that
  \<open>str.isdigit\<close> accepts; the value is then the date cut as YYYY-MM-DD. For
  \<open>20230115\<close> the value is \<open>2023-01-15\<close>; for any other length, or with a character
  that is not a digit, the command sets no date tag.
\<close>

theorem embedding_sets_date_tag:
  assumes "embed_metadata e local_file (Some m) video_id w = (Return u, w')"
  shows "(\<exists>cmd. ffmpeg_cmds (trace w') = ffmpeg_cmds (trace w) @ [cmd]
           \<and> date_tags cmd =
               (if length (upload_date_of m) = 8 \<and> isdigit (upload_date_of m)
                then [''date='' @ take 4 (upload_date_of m) @ ''-'' @
                      take 2 (drop 4 (upload_date_of m)) @ ''-'' @ drop 6 (upload_date_of m)]
                else []))
       \<and> date_tag ''20230115'' = ''2023-01-15''"
proof -
  obtain tp w1 where d: "download_thumbnail e (m_thumbnail_url m) video_id w = (tp, w1)"
    by (cases "download_thumbnail e (m_thumbnail_url m) video_id w")
  have c1: "ffmpeg_cmds (trace w1) = ffmpeg_cmds (trace w)"
    using ffmpeg_cmds_download_thumbnail [of e "m_thumbnail_url m" video_id w] d by simp
  from assms d obtain tmp_path f2 where
    w': "w' = cleanup_thumbnail tp (tag_file e local_file tp m video_id tmp_path (w1\<lparr>fs := f2\<rparr>))"
    by (auto simp add: embed_metadata_def Let_def split: sum.splits)
  let ?cmd = "embed_cmd f2 local_file tp m video_id tmp_path"
  have "ffmpeg_cmds (trace w') = ffmpeg_cmds (trace w) @ [?cmd]"
    using c1 by (simp add: w' trace_cleanup_thumbnail ffmpeg_cmds_tag_file)
  moreover have "length x = 8 \<Longrightarrow> take 2 (drop 6 x) = drop 6 x" for x :: string
    by simp
  then have "date_tags ?cmd =
      (if length (upload_date_of m) = 8 \<and> isdigit (upload_date_of m)
       then [''date='' @ take 4 (upload_date_of m) @ ''-'' @
             take 2 (drop 4 (upload_date_of m)) @ ''-'' @ drop 6 (upload_date_of m)]
       else [])"
    by (simp add: date_tags_embed_cmd date_tag_def)
  moreover have "date_tag ''20230115'' = ''2023-01-15''"
    by (simp add: date_tag_def isdigit_def isdigit_char_def)
  ultimately show ?thesis by blast
qed

theorem embedding_sets_date_tag_witness:
  "(\<exists>cmd. ffmpeg_cmds (trace (snd (embed_metadata quiet_env ''temp_downloads/abc/abc.webm''
              (Some sample_meta) ''abc'' webm_world))) = [cmd]
          \<and> date_tags cmd = [''date=2023-01-15''])
   \<and> (\<exists>cmd. ffmpeg_cmds (trace (snd (embed_metadata quiet_env ''temp_downloads/abc/abc.webm''
              (Some short_date_meta) ''abc'' webm_world))) = [cmd]
          \<and> date_tags cmd = [])"
proof -
  let ?run = "\<lambda>m. embed_metadata quiet_env ''temp_downloads/abc/abc.webm'' (Some m) ''abc''
      webm_world"
  have r: "fst (?run sample_meta) = Return ()" "fst (?run short_date_meta) = Return ()"
    by code_simp+
  have e: "?run sample_meta = (Return (), snd (?run sample_meta))"
    "?run short_date_meta = (Return (), snd (?run short_date_meta))"
    using r by (simp_all add: prod_eq_iff)
  have t: "ffmpeg_cmds (trace webm_world) = []"
    by (simp add: webm_world_def ffmpeg_cmds_def List.map_filter_def)
  have u: "upload_date_of sample_meta = ''20230115''"
    "upload_date_of short_date_meta = ''2023-01''"
    by (simp_all add: upload_date_of_def sample_meta_def short_date_meta_def or_else_def)
  have d: "isdigit ''20230115''"
    by (simp add: isdigit_def isdigit_char_def)
  show ?thesis
    using embedding_sets_date_tag [OF e(1)] embedding_sets_date_tag [OF e(2)]
    by (simp add: t u d)
qed

section \<open>Loops with early return\<close>





section \<open>The extraction engine\<close>
















lemma finish_plain:
  "desired_ext_of config = None \<Longrightarrow>
   finish e chosen None vid config w = (Return (Some chosen), w)"
  by (simp add: finish_def embed_metadata_def final_format_conversion_def)









lemma ydl_calls_append: "ydl_calls (xs @ ys) = ydl_calls xs @ ydl_calls ys"
  by (simp add: ydl_calls_def)

lemma ydl_calls_cons:
  "ydl_calls (Ffmpeg cmd # tr) = ydl_calls tr"
  "ydl_calls (Log l msg # tr) = ydl_calls tr"
  "ydl_calls (Http_get u # tr) = ydl_calls tr"
  "ydl_calls [] = []"
  by (simp_all add: ydl_calls_def is_ydl_def)


lemma ydl_calls_run_ffmpeg:
  "ydl_calls (trace (snd (run_ffmpeg e cmd w))) = ydl_calls (trace w)"
  by (simp add: trace_run_ffmpeg ydl_calls_append ydl_calls_cons)







text \<open>
  A well-formed runtime hint has a colon: the hint \<open>node\<close> makes the first attempt raise
  \<open>ValueError\<close> (line 453) before the extractor is called.
\<close>

lemma runtime_hint_without_colon_raises:
  "fst (download_with_ytdlp two_item_env ''https://www.youtube.com/watch?v=abc''
          ''temp_downloads/abc'' (Some ''node'') (Some sample_meta) (Some sample_config)
          empty_world) = Raise ValueError"
  by code_simp




end
